theory Spec2Isabelle
  imports Main "HOL-Library.AList"
begin

section \<open>Shared vocabulary\<close>

text \<open>
  The repository holds two coordinators for the same game rooms: the Node server
  (\<^verbatim>\<open>src/server/routes.ts\<close>, one \<^verbatim>\<open>rooms\<close> table in memory) and the
  Cloudflare worker (\<^verbatim>\<open>src/worker/src/index.ts\<close>, one \<^verbatim>\<open>Room\<close> object
  per room id). Both are embedded here, each handler as a function from the state
  before the event to the state after it and the list of \<^verbatim>\<open>send\<close> calls it
  makes, in the order it makes them.

  A WebSocket is known by its identity only (\<^verbatim>\<open>c !== ws\<close>), so it is a number.
  A JavaScript \<^verbatim>\<open>Set\<close> or \<^verbatim>\<open>Map\<close> iterates in insertion order, so it is a
  list without repetition.
\<close>

type_synonym ws = nat

datatype role = W | B | S

text \<open>The messages a coordinator sends; \<^verbatim>\<open>Move_out\<close> carries from, to, promotion,
  fen and the optional senderId (absent in the worker's message).\<close>

datatype out_msg =
    Stats nat
  | Role_msg role bool
  | State_msg string
  | Opponent_info int string
  | Player_info role int string
  | Start_game role
  | Move_out string string string string "int option"
  | Game_over_out "string option"
  | Match_found string

type_synonym outbox = "(ws \<times> out_msg) list"

text \<open>JavaScript truthiness of an optional number and of an optional string.\<close>

definition truthy_num :: "int option \<Rightarrow> bool" where
  "truthy_num x = (case x of None \<Rightarrow> False | Some n \<Rightarrow> n \<noteq> 0)"

definition truthy_str :: "string option \<Rightarrow> bool" where
  "truthy_str x = (case x of None \<Rightarrow> False | Some s \<Rightarrow> s \<noteq> [])"

text \<open>\<^verbatim>\<open>x || d\<close> on an optional string and on an optional number.\<close>

definition str_or :: "string option \<Rightarrow> string \<Rightarrow> string" where
  "str_or x d = (if truthy_str x then the x else d)"

definition num_or0 :: "int option \<Rightarrow> int" where
  "num_or0 x = (case x of None \<Rightarrow> 0 | Some n \<Rightarrow> n)"

text \<open>\<^verbatim>\<open>Set.add\<close> and \<^verbatim>\<open>Set.delete\<close>.\<close>

definition set_add :: "'a \<Rightarrow> 'a list \<Rightarrow> 'a list" where
  "set_add x xs = (if x \<in> set xs then xs else xs @ [x])"

definition set_delete :: "'a \<Rightarrow> 'a list \<Rightarrow> 'a list" where
  "set_delete x xs = filter (\<lambda>y. y \<noteq> x) xs"

text \<open>
  The rules engine (\<^verbatim>\<open>chess.js\<close>) is a library outside the repository, so it is a
  parameter: \<^verbatim>\<open>new Chess()\<close>, \<^verbatim>\<open>new Chess(fen)\<close>, \<^verbatim>\<open>game.fen()\<close> and
  \<^verbatim>\<open>game.move({from, to, promotion})\<close>. A move the engine rejects (it returns
  \<^verbatim>\<open>null\<close> or throws, depending on its version) is \<open>None\<close> and leaves the game
  object as it was; an accepted move gives the game object after the move.
\<close>

record 'g engine =
  new_chess :: 'g
  load_chess :: "string \<Rightarrow> 'g option"
  chess_fen :: "'g \<Rightarrow> string"
  chess_move :: "'g \<Rightarrow> string \<Rightarrow> string \<Rightarrow> string \<Rightarrow> 'g option"

section \<open>The server: \<^verbatim>\<open>src/server/routes.ts\<close>\<close>

subsection \<open>Rooms\<close>

record 'g room =
  room_id :: string
  clients :: "ws list"
  fen :: "string option"
  white :: "ws option"
  black :: "ws option"
  whiteId :: "int option"
  blackId :: "int option"
  whiteUsername :: "string option"
  blackUsername :: "string option"
  started :: bool
  spectators :: "ws list"
  game :: "'g option"

type_synonym 'g rooms = "(string \<times> 'g room) list"

text \<open>The \<^verbatim>\<open>join\<close> message: \<^verbatim>\<open>userId\<close> is \<open>None\<close> when absent, \<^verbatim>\<open>username\<close>
  is \<open>None\<close> when it is not a string.\<close>

record join_msg =
  j_roomId :: string
  j_userId :: "int option"
  j_username :: "string option"

definition new_room :: "'g engine \<Rightarrow> string \<Rightarrow> 'g room" where
  "new_room eng rid =
     \<lparr> room_id = rid, clients = [], fen = Some (chess_fen eng (new_chess eng)),
       white = None, black = None, whiteId = None, blackId = None,
       whiteUsername = None, blackUsername = None, started = False,
       spectators = [], game = Some (new_chess eng) \<rparr>"

text \<open>Lines 459-473: the seat given to the joining connection.\<close>

definition assign_seat :: "'g room \<Rightarrow> ws \<Rightarrow> join_msg \<Rightarrow> 'g room \<times> role" where
  "assign_seat r c m =
     (if white r = None then
        (r\<lparr> white := Some c,
            whiteId := (if truthy_num (j_userId m) then j_userId m else whiteId r),
            whiteUsername := (case j_username m of Some u \<Rightarrow> Some u | None \<Rightarrow> whiteUsername r) \<rparr>, W)
      else if black r = None then
        (r\<lparr> black := Some c,
            blackId := (if truthy_num (j_userId m) then j_userId m else blackId r),
            blackUsername := (case j_username m of Some u \<Rightarrow> Some u | None \<Rightarrow> blackUsername r) \<rparr>, B)
      else (r\<lparr> spectators := set_add c (spectators r) \<rparr>, S))"

definition both_seated :: "'g room \<Rightarrow> bool" where
  "both_seated r = (white r \<noteq> None \<and> black r \<noteq> None)"

text \<open>Lines 486-490: what the joiner learns about its opponent.\<close>

definition joiner_opponent_info :: "'g room \<Rightarrow> ws \<Rightarrow> outbox" where
  "joiner_opponent_info r c =
     (if white r = Some c \<and> truthy_num (blackId r) \<and> truthy_str (blackUsername r)
      then [(c, Opponent_info (the (blackId r)) (the (blackUsername r)))]
      else if black r = Some c \<and> truthy_num (whiteId r) \<and> truthy_str (whiteUsername r)
      then [(c, Opponent_info (the (whiteId r)) (the (whiteUsername r)))]
      else [])"

text \<open>Lines 493-500: what a spectator learns about the players.\<close>

definition spectator_player_info :: "'g room \<Rightarrow> ws \<Rightarrow> outbox" where
  "spectator_player_info r c =
     (if c \<in> set (spectators r) then
        (if truthy_num (whiteId r) \<and> truthy_str (whiteUsername r)
         then [(c, Player_info W (the (whiteId r)) (the (whiteUsername r)))] else []) @
        (if truthy_num (blackId r) \<and> truthy_str (blackUsername r)
         then [(c, Player_info B (the (blackId r)) (the (blackUsername r)))] else [])
      else [])"

text \<open>Lines 502-519: the start of the game, once per \<^verbatim>\<open>started\<close> flag. It is
  only called with both seats taken.\<close>

definition start_room :: "'g room \<Rightarrow> 'g room \<times> outbox" where
  "start_room r =
     (if \<not> started r then
        (r\<lparr> started := True \<rparr>,
         (if truthy_num (whiteId r) \<and> truthy_num (blackId r)
             \<and> truthy_str (whiteUsername r) \<and> truthy_str (blackUsername r)
          then [(the (white r), Opponent_info (the (blackId r)) (the (blackUsername r))),
                (the (black r), Opponent_info (the (whiteId r)) (the (whiteUsername r)))]
          else []) @
         [(the (white r), Start_game W), (the (black r), Start_game B)])
      else (r, []))"

text \<open>Lines 448-521: the whole \<^verbatim>\<open>join\<close> branch, on the room found or created.\<close>

definition join_room :: "'g room \<Rightarrow> ws \<Rightarrow> join_msg \<Rightarrow> 'g room \<times> role \<times> outbox" where
  "join_room r0 c m =
     (let r1 = r0\<lparr> clients := set_add c (clients r0) \<rparr>;
          (r2, rl) = assign_seat r1 c m;
          out_stats = map (\<lambda>d. (d, Stats (length (clients r2)))) (clients r2);
          out_role = [(c, Role_msg rl (rl \<noteq> S \<and> \<not> both_seated r2))];
          out_state = (if truthy_str (fen r2) then [(c, State_msg (the (fen r2)))] else []);
          out_info = (if both_seated r2
                      then joiner_opponent_info r2 c @ spectator_player_info r2 c else []);
          (r3, out_start) = (if both_seated r2 then start_room r2 else (r2, []))
      in (r3, rl, out_stats @ out_role @ out_state @ out_info @ out_start))"

definition find_or_new_room :: "'g engine \<Rightarrow> 'g rooms \<Rightarrow> string \<Rightarrow> 'g room" where
  "find_or_new_room eng rs rid =
     (case map_of rs rid of Some r \<Rightarrow> r | None \<Rightarrow> new_room eng rid)"

definition join_handler :: "'g engine \<Rightarrow> 'g rooms \<Rightarrow> ws \<Rightarrow> join_msg \<Rightarrow> 'g rooms \<times> outbox" where
  "join_handler eng rs c m =
     (let (r, rl, out) = join_room (find_or_new_room eng rs (j_roomId m)) c m
      in (AList.update (j_roomId m) r rs, out))"

text \<open>The role the joiner is told, read back from the \<^verbatim>\<open>role\<close> message.\<close>

definition join_role :: "'g engine \<Rightarrow> 'g rooms \<Rightarrow> ws \<Rightarrow> join_msg \<Rightarrow> role" where
  "join_role eng rs c m = fst (snd (join_room (find_or_new_room eng rs (j_roomId m)) c m))"

definition room_after_join :: "'g engine \<Rightarrow> 'g rooms \<Rightarrow> ws \<Rightarrow> join_msg \<Rightarrow> 'g room" where
  "room_after_join eng rs c m = fst (join_room (find_or_new_room eng rs (j_roomId m)) c m)"

subsection \<open>Moves\<close>

text \<open>The \<^verbatim>\<open>move\<close> message as the client builds it: \<^verbatim>\<open>{roomId, move: {from, to},
  fen, promotion}\<close>. The server destructures \<^verbatim>\<open>roomId\<close>, \<^verbatim>\<open>move\<close> and
  \<^verbatim>\<open>promotion\<close> only; the worker reads \<^verbatim>\<open>fen\<close> too. A field is \<open>None\<close> when
  it is absent or not a string.\<close>

record move_msg =
  mv_roomId :: string
  mv_from :: "string option"
  mv_to :: "string option"
  mv_promotion :: "string option"
  mv_fen :: "string option"

text \<open>\<^verbatim>\<open>room.clients.forEach(c => { if (c !== ws) c.send(...) })\<close>\<close>

definition fan_out :: "ws list \<Rightarrow> ws \<Rightarrow> out_msg \<Rightarrow> outbox" where
  "fan_out cs c msg = map (\<lambda>d. (d, msg)) (filter (\<lambda>d. d \<noteq> c) cs)"

text \<open>Lines 527-529: the game object of the room, made from the stored position when
  the room has none (\<open>None\<close> when the constructor throws).\<close>

definition room_game :: "'g engine \<Rightarrow> 'g room \<Rightarrow> 'g option" where
  "room_game eng r =
     (case game r of
        Some g \<Rightarrow> Some g
      | None \<Rightarrow> (if truthy_str (fen r) then load_chess eng (the (fen r))
                 else Some (new_chess eng)))"

text \<open>Lines 523-552. \<open>cur\<close> is the connection's \<^verbatim>\<open>currentUserId\<close>.\<close>

definition move_handler ::
  "'g engine \<Rightarrow> 'g rooms \<Rightarrow> ws \<Rightarrow> int option \<Rightarrow> move_msg \<Rightarrow> 'g rooms \<times> outbox" where
  "move_handler eng rs c cur m =
     (case map_of rs (mv_roomId m) of
        None \<Rightarrow> (rs, [])
      | Some r \<Rightarrow>
          if truthy_str (mv_from m) \<and> truthy_str (mv_to m) then
            (case room_game eng r of
               None \<Rightarrow> (rs, [])
             | Some g \<Rightarrow>
                 (case chess_move eng g (the (mv_from m)) (the (mv_to m))
                         (str_or (mv_promotion m) ''q'') of
                    None \<Rightarrow> (AList.update (mv_roomId m) (r\<lparr> game := Some g \<rparr>) rs, [])
                  | Some g' \<Rightarrow>
                      (AList.update (mv_roomId m)
                         (r\<lparr> game := Some g', fen := Some (chess_fen eng g') \<rparr>) rs,
                       fan_out (clients r) c
                         (Move_out (the (mv_from m)) (the (mv_to m))
                            (str_or (mv_promotion m) ''q'') (chess_fen eng g') cur))))
          else (rs, []))"

subsection \<open>The store and the settlement of a finished game\<close>

text \<open>The columns of \<^verbatim>\<open>users\<close> and \<^verbatim>\<open>games\<close> that the coordinators read or
  write; every integer column is nullable.\<close>

record user =
  rating :: "int option"
  gamesPlayed :: "int option"
  wins :: "int option"
  losses :: "int option"
  draws :: "int option"

record game_row =
  whitePlayerId :: "int option"
  blackPlayerId :: "int option"
  pgn :: "string option"
  result :: "string option"

record db =
  users :: "int \<rightharpoonup> user"
  games :: "game_row list"

text \<open>The server's store is PostgreSQL: the ids, \<^verbatim>\<open>rating\<close> and
  \<^verbatim>\<open>games_played\<close> are 32-bit \<^verbatim>\<open>integer\<close> columns, and a statement that
  carries a number outside that range fails, which throws in the handler.\<close>

definition in_int4 :: "int \<Rightarrow> bool" where
  "in_int4 n = (- 2147483648 \<le> n \<and> n \<le> 2147483647)"

definition id_ok :: "int option \<Rightarrow> bool" where
  "id_ok x = (case x of None \<Rightarrow> True | Some n \<Rightarrow> in_int4 n)"

text \<open>\<^verbatim>\<open>DbStorage.getUser\<close>: the row of the id, if there is one.\<close>

definition getUser :: "db \<Rightarrow> int \<Rightarrow> user option" where
  "getUser d uid = users d uid"

text \<open>The \<^verbatim>\<open>UPDATE\<close> of \<^verbatim>\<open>DbStorage.updateUserRating\<close>: it sets the two
  columns of the row the id has at that moment.\<close>

definition write_rating :: "db \<Rightarrow> int \<Rightarrow> int \<Rightarrow> int \<Rightarrow> db" where
  "write_rating d uid newRating played =
     (case users d uid of
        None \<Rightarrow> d
      | Some cur \<Rightarrow>
          d\<lparr> users := (users d)(uid \<mapsto>
                cur\<lparr> rating := Some newRating, gamesPlayed := Some played \<rparr>) \<rparr>)"

text \<open>\<^verbatim>\<open>DbStorage.createGame\<close>\<close>

definition createGame :: "db \<Rightarrow> game_row \<Rightarrow> db" where
  "createGame d g =
     d\<lparr> games := games d @
           [\<lparr> whitePlayerId = whitePlayerId g, blackPlayerId = blackPlayerId g,
              pgn = Some (case pgn g of None \<Rightarrow> [] | Some p \<Rightarrow> p), result = result g \<rparr>] \<rparr>"

text \<open>\<^verbatim>\<open>(await storage.getUser(id))?.rating || 0\<close>\<close>

definition rating_or0 :: "user option \<Rightarrow> int" where
  "rating_or0 u = (case u of None \<Rightarrow> 0 | Some x \<Rightarrow> num_or0 (rating x))"

record game_over_msg =
  go_roomId :: string
  go_result :: "string option"
  go_winnerColor :: "string option"

text \<open>
  The \<^verbatim>\<open>game_over\<close> branch (lines 554-595) is asynchronous: it suspends at every
  \<^verbatim>\<open>await\<close> of a storage call, and other handlers run while it is suspended. So
  it is a task that is resumed once per storage call. Between two calls it runs
  without interruption, reading the room object as it is at that moment.

  The branch makes two rating updates and then stores the game. An update is one of
  two statements: \<open>Plus3\<close> reads the user, and if there is one calls
  \<^verbatim>\<open>updateUserRating\<close> with the rating plus 3; \<open>Same\<close> calls
  \<^verbatim>\<open>updateUserRating\<close> with the rating it reads (or 0).
  \<^verbatim>\<open>updateUserRating\<close> itself reads the user again and then writes.
\<close>

datatype seat = White_seat | Black_seat

datatype style = Plus3 | Same

text \<open>The storage call a suspended task waits for, with the values the task holds:
  \<^item> \<open>Own_get\<close>: the handler's own \<^verbatim>\<open>storage.getUser(id)\<close> of an update;
  \<^item> \<open>Upd_get\<close>: \<^verbatim>\<open>updateUserRating(id, newRating)\<close> at its \<^verbatim>\<open>getUser\<close>;
  \<^item> \<open>Upd_write\<close>: \<^verbatim>\<open>updateUserRating\<close> at its \<^verbatim>\<open>UPDATE\<close>, holding the
    row it read;
  \<^item> \<open>Create_game\<close>: \<^verbatim>\<open>storage.createGame\<close> at its \<^verbatim>\<open>INSERT\<close>;
  \<^item> \<open>Settled\<close>: the handler has returned; \<open>Aborted\<close>: a storage call threw, and
    the handler ended in its \<^verbatim>\<open>catch\<close>.\<close>

datatype pending =
    Own_get style seat int
  | Upd_get int int
  | Upd_write int int user
  | Create_game game_row
  | Settled
  | Aborted

record go_task =
  gt_ws :: ws
  gt_msg :: game_over_msg
  gt_todo :: "(style \<times> seat) list"
  gt_pending :: pending

text \<open>Lines 559-578: the updates of the three branches on \<^verbatim>\<open>winnerColor\<close>.\<close>

definition plan :: "string option \<Rightarrow> (style \<times> seat) list" where
  "plan winnerColor =
     (if winnerColor = Some ''w'' then [(Plus3, White_seat), (Same, Black_seat)]
      else if winnerColor = Some ''b'' then [(Plus3, Black_seat), (Same, White_seat)]
      else [(Same, White_seat), (Same, Black_seat)])"

text \<open>\<^verbatim>\<open>room.whiteId\<close> or \<^verbatim>\<open>room.blackId\<close>. Once set, a seat identity is only
  ever replaced by another one, so it is there whenever a task reads it.\<close>

definition seat_id :: "'g room \<Rightarrow> seat \<Rightarrow> int" where
  "seat_id r s = (case s of White_seat \<Rightarrow> the (whiteId r) | Black_seat \<Rightarrow> the (blackId r))"

text \<open>The next storage call of the handler: the \<^verbatim>\<open>getUser\<close> of the next update,
  or, after the last one, \<^verbatim>\<open>createGame\<close> with the fields of the room.\<close>

definition next_op :: "'g room \<Rightarrow> game_over_msg \<Rightarrow> (style \<times> seat) list \<Rightarrow>
    (style \<times> seat) list \<times> pending" where
  "next_op r m todo =
     (case todo of
        [] \<Rightarrow> ([], Create_game \<lparr> whitePlayerId = whiteId r, blackPlayerId = blackId r,
                                pgn = Some (str_or (fen r) []), result = go_result m \<rparr>)
      | (st, s) # rest \<Rightarrow> (rest, Own_get st s (seat_id r s)))"

definition advance :: "'g room \<Rightarrow> go_task \<Rightarrow> go_task" where
  "advance r t =
     (case next_op r (gt_msg t) (gt_todo t) of
        (todo, p) \<Rightarrow> t\<lparr> gt_todo := todo, gt_pending := p \<rparr>)"

text \<open>The handler from the arrival of the message to its first \<^verbatim>\<open>await\<close>, on the
  room it found. Without both seat identities it stores nothing and relays at once.\<close>

definition game_over_begin :: "'g room \<Rightarrow> ws \<Rightarrow> game_over_msg \<Rightarrow> go_task option \<times> outbox" where
  "game_over_begin r c m =
     (if truthy_num (whiteId r) \<and> truthy_num (blackId r) then
        (Some (advance r \<lparr> gt_ws = c, gt_msg = m, gt_todo = plan (go_winnerColor m),
                           gt_pending = Settled \<rparr>), [])
      else (None, fan_out (clients r) c (Game_over_out (go_result m))))"

text \<open>One resumption: the storage call the task waits for is made on the store as it
  is now, and the handler runs on to its next storage call. \<open>r\<close> is the room object
  as it is now. After the \<^verbatim>\<open>INSERT\<close> the handler relays \<^verbatim>\<open>game_over\<close> to the
  other clients and returns.\<close>

definition game_over_resume :: "'g room \<Rightarrow> db \<Rightarrow> go_task \<Rightarrow> db \<times> go_task \<times> outbox" where
  "game_over_resume r d t =
     (case gt_pending t of
        Own_get st s uid \<Rightarrow>
          if \<not> in_int4 uid then (d, t\<lparr> gt_pending := Aborted \<rparr>, [])
          else (case st of
                  Plus3 \<Rightarrow>
                    (case getUser d uid of
                       Some u \<Rightarrow>
                         (d, t\<lparr> gt_pending := Upd_get (seat_id r s) (num_or0 (rating u) + 3) \<rparr>, [])
                     | None \<Rightarrow> (d, advance r t, []))
                | Same \<Rightarrow>
                    (d, t\<lparr> gt_pending := Upd_get uid (rating_or0 (getUser d uid)) \<rparr>, []))
      | Upd_get uid newRating \<Rightarrow>
          if \<not> in_int4 uid then (d, t\<lparr> gt_pending := Aborted \<rparr>, [])
          else (case getUser d uid of
                  None \<Rightarrow> (d, advance r t, [])
                | Some existing \<Rightarrow> (d, t\<lparr> gt_pending := Upd_write uid newRating existing \<rparr>, []))
      | Upd_write uid newRating existing \<Rightarrow>
          if in_int4 newRating \<and> in_int4 (num_or0 (gamesPlayed existing) + 1)
          then (write_rating d uid newRating (num_or0 (gamesPlayed existing) + 1), advance r t, [])
          else (d, t\<lparr> gt_pending := Aborted \<rparr>, [])
      | Create_game g \<Rightarrow>
          if id_ok (whitePlayerId g) \<and> id_ok (blackPlayerId g)
          then (createGame d g, t\<lparr> gt_pending := Settled \<rparr>,
                fan_out (clients r) (gt_ws t) (Game_over_out (go_result (gt_msg t))))
          else (d, t\<lparr> gt_pending := Aborted \<rparr>, [])
      | Settled \<Rightarrow> (d, t, [])
      | Aborted \<Rightarrow> (d, t, []))"

text \<open>\<open>n\<close> resumptions in a row, with no other handler in between and the room
  unchanged.\<close>

fun game_over_run :: "nat \<Rightarrow> 'g room \<Rightarrow> db \<times> go_task \<times> outbox \<Rightarrow> db \<times> go_task \<times> outbox" where
  "game_over_run 0 r s = s"
| "game_over_run (Suc n) r (d, t, out) =
     (case game_over_resume r d t of
        (d', t', out') \<Rightarrow> game_over_run n r (d', t', out @ out'))"

text \<open>The storage calls a task has still to make, at most.\<close>

definition calls_left :: "go_task \<Rightarrow> nat" where
  "calls_left t =
     (case gt_pending t of
        Own_get st s uid \<Rightarrow> 3 * length (gt_todo t) + 4
      | Upd_get uid n \<Rightarrow> 3 * length (gt_todo t) + 3
      | Upd_write uid n e \<Rightarrow> 3 * length (gt_todo t) + 2
      | Create_game g \<Rightarrow> 1
      | Settled \<Rightarrow> 0
      | Aborted \<Rightarrow> 0)"


text \<open>Two handlers whose storage calls alternate, the first one starting: \<open>n\<close>
  resumptions of each, on the rooms \<open>r1\<close> and \<open>r2\<close>.\<close>

fun game_over_alternate ::
  "nat \<Rightarrow> 'g room \<Rightarrow> 'g room \<Rightarrow> db \<times> go_task \<times> go_task \<Rightarrow> db \<times> go_task \<times> go_task" where
  "game_over_alternate 0 r1 r2 s = s"
| "game_over_alternate (Suc n) r1 r2 (d, t1, t2) =
     (case game_over_resume r1 d t1 of
        (d1, t1', out1) \<Rightarrow>
          (case game_over_resume r2 d1 t2 of
             (d2, t2', out2) \<Rightarrow> game_over_alternate n r1 r2 (d2, t1', t2')))"

text \<open>Two \<^verbatim>\<open>game_over\<close> messages whose handlers overlap: both handlers have
  started before either storage call returns, and their storage calls alternate from
  then on. The result is the store when both have returned.\<close>

definition game_over_overlapping ::
  "'g rooms \<Rightarrow> db \<Rightarrow> ws \<Rightarrow> game_over_msg \<Rightarrow> ws \<Rightarrow> game_over_msg \<Rightarrow> db" where
  "game_over_overlapping rs d c1 m1 c2 m2 =
     (case (map_of rs (go_roomId m1), map_of rs (go_roomId m2)) of
        (Some r1, Some r2) \<Rightarrow>
          (case (fst (game_over_begin r1 c1 m1), fst (game_over_begin r2 c2 m2)) of
             (Some t1, Some t2) \<Rightarrow> fst (game_over_alternate 7 r1 r2 (d, t1, t2))
           | _ \<Rightarrow> d)
      | _ \<Rightarrow> d)"
subsection \<open>Closing a connection\<close>

record ticket =
  t_ws :: ws
  t_userId :: int

text \<open>Lines 660-670, for one room of the table.\<close>

definition close_room :: "ws \<Rightarrow> 'g room \<Rightarrow> 'g room \<times> outbox" where
  "close_room c r =
     (if c \<in> set (clients r) then
        (let r' = r\<lparr> clients := set_delete c (clients r),
                     white := (if white r = Some c then None else white r),
                     black := (if black r = Some c then None else black r),
                     spectators := set_delete c (spectators r) \<rparr>
         in (r', map (\<lambda>d. (d, Stats (length (clients r')))) (clients r')))
      else (r, []))"

text \<open>Lines 655-671: the tickets of the connection leave the queue (the loop runs from
  the last index down, removing each match), and every room is visited. The
  \<^verbatim>\<open>userConnections\<close> registry serves the invitations and is left out.\<close>

definition close_handler ::
  "'g rooms \<Rightarrow> ticket list \<Rightarrow> ws \<Rightarrow> 'g rooms \<times> ticket list \<times> outbox" where
  "close_handler rs q c =
     (map (\<lambda>(k, r). (k, fst (close_room c r))) rs,
      filter (\<lambda>t. t_ws t \<noteq> c) q,
      concat (map (\<lambda>(k, r). snd (close_room c r)) rs))"

subsection \<open>Matchmaking\<close>




section \<open>The worker: \<^verbatim>\<open>src/worker/src/index.ts\<close>\<close>

subsection \<open>The \<^verbatim>\<open>Room\<close> object and its storage\<close>

record meta =
  m_id :: "int option"
  m_username :: "string option"

record room_conn =
  rc_userId :: "int option"
  rc_username :: "string option"
  rc_role :: role

text \<open>The value kept under the key \<^verbatim>\<open>"room"\<close> of the object's storage.\<close>

record snapshot =
  s_fen :: "string option"
  s_started :: bool
  s_whiteMeta :: meta
  s_blackMeta :: meta

datatype storage_op = Get | Put snapshot

text \<open>
  The fields of \<^verbatim>\<open>class Room\<close>, with the storage of the object beside them:
  \<open>storageW\<close> is the value under \<^verbatim>\<open>"room"\<close>, \<open>storage_log\<close> the calls of
  \<^verbatim>\<open>storage.get\<close> and \<^verbatim>\<open>storage.put\<close> in the order they are issued. A
  \<^verbatim>\<open>put\<close> takes its value when it is called, and is taken to succeed.
\<close>

record wroom =
  fenW :: "string option"
  startedW :: bool
  whiteW :: "ws option"
  blackW :: "ws option"
  whiteMetaW :: meta
  blackMetaW :: meta
  socketsW :: "(ws \<times> room_conn) list"
  storageW :: "snapshot option"
  storage_log :: "storage_op list"

definition empty_meta :: meta where
  "empty_meta = \<lparr> m_id = None, m_username = None \<rparr>"

text \<open>The constructor: one \<^verbatim>\<open>storage.get("room")\<close>, then the fields it finds.\<close>

definition Room_constructor :: "snapshot option \<Rightarrow> wroom" where
  "Room_constructor stored =
     \<lparr> fenW = (case stored of None \<Rightarrow> None | Some s \<Rightarrow> s_fen s),
       startedW = (case stored of None \<Rightarrow> False | Some s \<Rightarrow> s_started s),
       whiteW = None, blackW = None,
       whiteMetaW = (case stored of None \<Rightarrow> empty_meta | Some s \<Rightarrow> s_whiteMeta s),
       blackMetaW = (case stored of None \<Rightarrow> empty_meta | Some s \<Rightarrow> s_blackMeta s),
       socketsW = [], storageW = stored, storage_log = [Get] \<rparr>"

definition snapshot_of :: "wroom \<Rightarrow> snapshot" where
  "snapshot_of r =
     \<lparr> s_fen = fenW r, s_started = startedW r,
       s_whiteMeta = whiteMetaW r, s_blackMeta = blackMetaW r \<rparr>"

definition persist :: "wroom \<Rightarrow> wroom" where
  "persist r =
     r\<lparr> storageW := Some (snapshot_of r),
        storage_log := storage_log r @ [Put (snapshot_of r)] \<rparr>"

text \<open>\<^verbatim>\<open>broadcast(payload, except?)\<close>: every socket of the room but \<open>except\<close>.\<close>

definition broadcast :: "wroom \<Rightarrow> out_msg \<Rightarrow> ws option \<Rightarrow> outbox" where
  "broadcast r payload except =
     map (\<lambda>(s, _). (s, payload)) (filter (\<lambda>(s, _). except \<noteq> Some s) (socketsW r))"

definition updateStats :: "wroom \<Rightarrow> outbox" where
  "updateStats r = broadcast r (Stats (length (socketsW r))) None"

definition assignRole :: "wroom \<Rightarrow> ws \<Rightarrow> int option \<Rightarrow> string option \<Rightarrow> wroom \<times> role" where
  "assignRole r c userId username =
     (let (r1, rl) =
            (if whiteW r = None then
               (r\<lparr> whiteW := Some c,
                   whiteMetaW := \<lparr> m_id = userId, m_username = username \<rparr> \<rparr>, W)
             else if blackW r = None then
               (r\<lparr> blackW := Some c,
                   blackMetaW := \<lparr> m_id = userId, m_username = username \<rparr> \<rparr>, B)
             else (r, S))
      in (r1\<lparr> socketsW := AList.update c
                 \<lparr> rc_userId = userId, rc_username = username, rc_role = rl \<rparr> (socketsW r1) \<rparr>,
          rl))"

definition maybeStart :: "wroom \<Rightarrow> wroom \<times> outbox" where
  "maybeStart r =
     (if startedW r then (r, [])
      else if whiteW r = None \<or> blackW r = None then (r, [])
      else
        (persist (r\<lparr> startedW := True \<rparr>),
         (if truthy_num (m_id (whiteMetaW r)) \<and> truthy_str (m_username (whiteMetaW r))
             \<and> truthy_num (m_id (blackMetaW r)) \<and> truthy_str (m_username (blackMetaW r))
          then [(the (whiteW r),
                   Opponent_info (the (m_id (blackMetaW r))) (the (m_username (blackMetaW r)))),
                (the (blackW r),
                   Opponent_info (the (m_id (whiteMetaW r))) (the (m_username (whiteMetaW r))))]
          else []) @
         [(the (whiteW r), Start_game W), (the (blackW r), Start_game B)]))"

text \<open>\<^verbatim>\<open>Room.fetch\<close> up to the registration of the listeners: a connection enters
  the room. \<open>auth\<close> is what \<^verbatim>\<open>verifyToken\<close> returns, the user's id and name.\<close>

definition player_infoW :: "wroom \<Rightarrow> ws \<Rightarrow> outbox" where
  "player_infoW r c =
     (if truthy_num (m_id (whiteMetaW r)) \<and> truthy_str (m_username (whiteMetaW r))
      then [(c, Player_info W (the (m_id (whiteMetaW r))) (the (m_username (whiteMetaW r))))]
      else []) @
     (if truthy_num (m_id (blackMetaW r)) \<and> truthy_str (m_username (blackMetaW r))
      then [(c, Player_info B (the (m_id (blackMetaW r))) (the (m_username (blackMetaW r))))]
      else [])"

definition fetch :: "wroom \<Rightarrow> ws \<Rightarrow> (int \<times> string) option \<Rightarrow> wroom \<times> outbox" where
  "fetch r c auth =
     (let (r1, rl) = assignRole r c (map_option fst auth) (map_option snd auth);
          out_stats = updateStats r1;
          out_role = [(c, Role_msg rl (rl \<noteq> S \<and> \<not> (whiteW r1 \<noteq> None \<and> blackW r1 \<noteq> None)))];
          out_state = (if truthy_str (fenW r1) then [(c, State_msg (the (fenW r1)))] else []);
          out_info = (if rl = S then player_infoW r1 c else []);
          (r2, out_start) = maybeStart r1
      in (r2, out_stats @ out_role @ out_state @ out_info @ out_start))"

text \<open>The \<^verbatim>\<open>move\<close> branch of the message listener (lines 624-634).\<close>

definition move_message :: "wroom \<Rightarrow> ws \<Rightarrow> move_msg \<Rightarrow> wroom \<times> outbox" where
  "move_message r c m =
     (case (mv_from m, mv_to m, mv_fen m) of
        (Some f, Some t, Some p) \<Rightarrow>
          (let r1 = persist (r\<lparr> fenW := Some p \<rparr>)
           in (r1, broadcast r1 (Move_out f t (str_or (mv_promotion m) ''q'') p None) None))
      | _ \<Rightarrow> (r, []))"

text \<open>\<^verbatim>\<open>cleanup\<close>, the listener of \<^verbatim>\<open>close\<close> and \<^verbatim>\<open>error\<close> (lines 675-684).\<close>

definition cleanup :: "wroom \<Rightarrow> ws \<Rightarrow> wroom \<times> outbox" where
  "cleanup r c =
     (let meta = map_of (socketsW r) c;
          r1 = r\<lparr> socketsW := AList.delete c (socketsW r),
                  whiteW := (if whiteW r = Some c then None else whiteW r),
                  blackW := (if blackW r = Some c then None else blackW r) \<rparr>;
          out = updateStats r1;
          r2 = (if map_option rc_role meta = Some W \<or> map_option rc_role meta = Some B
                then r1\<lparr> startedW := False \<rparr> else r1)
      in (persist r2, out))"

subsection \<open>Settlement in the worker\<close>

text \<open>
  The worker's store is D1, and its numbers pass through JavaScript: a column value
  is read as a double and a sum is rounded to a double. \<open>to_double\<close> is the double
  nearest to an integer (ties to even); it is the integer itself up to \<open>2 ^ 53\<close>.
\<close>

fun bit_len :: "nat \<Rightarrow> nat" where
  "bit_len n = (if n = 0 then 0 else Suc (bit_len (n div 2)))"

declare bit_len.simps [simp del]

definition to_double :: "int \<Rightarrow> int" where
  "to_double n =
     (let a = nat \<bar>n\<bar>;
          q = 2 ^ (bit_len a - 53);
          lo = (a div q) * q;
          m = (if 2 * (a - lo) < q then lo
               else if 2 * (a - lo) > q then lo + q
               else if even (a div q) then lo else lo + q)
      in if n < 0 then - int m else int m)"

text \<open>\<^verbatim>\<open>Number(row.x || 0) + k\<close>\<close>

definition js_plus :: "int option \<Rightarrow> int \<Rightarrow> int" where
  "js_plus x k = to_double (to_double (num_or0 x) + k)"

datatype field = Wins | Losses | Draws

text \<open>
  \<^verbatim>\<open>Room.handleGameOver\<close> (lines 690-726) is asynchronous too, and is started
  without being awaited. It takes the two identities and the position when it starts,
  inserts the game row, and then calls its local function \<^verbatim>\<open>inc\<close> twice;
  \<^verbatim>\<open>inc\<close> selects the row of the user and then updates it. The task waits for
  the \<^verbatim>\<open>INSERT\<close>, for the \<^verbatim>\<open>SELECT\<close> of \<^verbatim>\<open>inc(userId, field,
  ratingDelta)\<close>, or for its \<^verbatim>\<open>UPDATE\<close> with the new values of the row. The
  row's \<^verbatim>\<open>created_at\<close> is left out.
\<close>

datatype wpending =
    W_insert game_row
  | W_select int field int
  | W_update int user
  | W_returned

record wtask =
  wt_todo :: "(int \<times> field \<times> int) list"
  wt_pending :: wpending

definition wadvance :: "wtask \<Rightarrow> wtask" where
  "wadvance t =
     (case wt_todo t of
        [] \<Rightarrow> t\<lparr> wt_pending := W_returned \<rparr>
      | (uid, fld, k) # rest \<Rightarrow> \<lparr> wt_todo = rest, wt_pending = W_select uid fld k \<rparr>)"

text \<open>Lines 716-725: the two calls of \<^verbatim>\<open>inc\<close>.\<close>

definition wplan :: "int \<Rightarrow> int \<Rightarrow> string option \<Rightarrow> (int \<times> field \<times> int) list" where
  "wplan wid bid winnerColor =
     (if winnerColor = Some ''w'' then [(wid, Wins, 3), (bid, Losses, 0)]
      else if winnerColor = Some ''b'' then [(bid, Wins, 3), (wid, Losses, 0)]
      else [(wid, Draws, 0), (bid, Draws, 0)])"

text \<open>\<^verbatim>\<open>handleGameOver\<close> up to its first \<^verbatim>\<open>await\<close>.\<close>

definition handleGameOver_begin :: "wroom \<Rightarrow> string \<Rightarrow> string option \<Rightarrow> wtask option" where
  "handleGameOver_begin r res winnerColor =
     (if \<not> truthy_num (m_id (whiteMetaW r)) \<or> \<not> truthy_num (m_id (blackMetaW r)) then None
      else Some \<lparr> wt_todo = wplan (the (m_id (whiteMetaW r))) (the (m_id (blackMetaW r)))
                               winnerColor,
                  wt_pending = W_insert \<lparr> whitePlayerId = m_id (whiteMetaW r),
                                           blackPlayerId = m_id (blackMetaW r),
                                           pgn = Some (str_or (fenW r) []),
                                           result = Some res \<rparr> \<rparr>)"

text \<open>The values \<^verbatim>\<open>inc(userId, field, ratingDelta)\<close> computes from the row it
  selected.\<close>

definition inc_row :: "user \<Rightarrow> field \<Rightarrow> int \<Rightarrow> user" where
  "inc_row row fld k =
     \<lparr> rating = Some (js_plus (rating row) k),
       gamesPlayed = Some (js_plus (gamesPlayed row) 1),
       wins = Some (js_plus (wins row) (if fld = Wins then 1 else 0)),
       losses = Some (js_plus (losses row) (if fld = Losses then 1 else 0)),
       draws = Some (js_plus (draws row) (if fld = Draws then 1 else 0)) \<rparr>"

text \<open>One resumption of the task on the store as it is now. The \<^verbatim>\<open>UPDATE\<close>
  sets all five columns of the row the id has at that moment.\<close>

definition handleGameOver_resume :: "db \<Rightarrow> wtask \<Rightarrow> db \<times> wtask" where
  "handleGameOver_resume d t =
     (case wt_pending t of
        W_insert g \<Rightarrow> (d\<lparr> games := games d @ [g] \<rparr>, wadvance t)
      | W_select uid fld k \<Rightarrow>
          (case users d uid of
             None \<Rightarrow> (d, wadvance t)
           | Some row \<Rightarrow> (d, t\<lparr> wt_pending := W_update uid (inc_row row fld k) \<rparr>))
      | W_update uid row \<Rightarrow>
          ((case users d uid of
              None \<Rightarrow> d
            | Some cur \<Rightarrow> d\<lparr> users := (users d)(uid \<mapsto> row) \<rparr>),
           wadvance t)
      | W_returned \<Rightarrow> (d, t))"

fun handleGameOver_run :: "nat \<Rightarrow> db \<times> wtask \<Rightarrow> db \<times> wtask" where
  "handleGameOver_run 0 s = s"
| "handleGameOver_run (Suc n) (d, t) = handleGameOver_run n (handleGameOver_resume d t)"

definition wcalls_left :: "wtask \<Rightarrow> nat" where
  "wcalls_left t =
     (case wt_pending t of
        W_insert g \<Rightarrow> 2 * length (wt_todo t) + 1
      | W_select uid fld k \<Rightarrow> 2 * length (wt_todo t) + 2
      | W_update uid row \<Rightarrow> 2 * length (wt_todo t) + 1
      | W_returned \<Rightarrow> 0)"


subsection \<open>Matchmaking in the worker\<close>





section \<open>Runs of events, observations and a concrete engine\<close>

text \<open>The events that change the server's room table. The other branches of the
  message handler (chat, draw, voice, \<^verbatim>\<open>game_over\<close>, \<^verbatim>\<open>find_match\<close>) leave
  it as it is.\<close>

datatype srv_event = Join ws join_msg | Move ws "int option" move_msg | Close ws

fun srv_step :: "'g engine \<Rightarrow> 'g rooms \<Rightarrow> srv_event \<Rightarrow> 'g rooms" where
  "srv_step eng rs (Join c m) = fst (join_handler eng rs c m)"
| "srv_step eng rs (Move c cur m) = fst (move_handler eng rs c cur m)"
| "srv_step eng rs (Close c) = fst (close_handler rs [] c)"

text \<open>The room table after a list of events, from the empty table the server
  starts with.\<close>

definition srv_run :: "'g engine \<Rightarrow> srv_event list \<Rightarrow> 'g rooms" where
  "srv_run eng evs = foldl (srv_step eng) [] evs"

text \<open>The events that change a worker \<^verbatim>\<open>Room\<close> or its storage.\<close>

datatype wevent = Connect ws "(int \<times> string) option" | Move_message ws move_msg | Cleanup ws

fun wstep :: "wroom \<Rightarrow> wevent \<Rightarrow> wroom" where
  "wstep r (Connect c auth) = fst (fetch r c auth)"
| "wstep r (Move_message c m) = fst (move_message r c m)"
| "wstep r (Cleanup c) = fst (cleanup r c)"

text \<open>The \<^verbatim>\<open>Room\<close> built on the stored value \<open>stored\<close>, after a list of events.\<close>

definition wrun :: "snapshot option \<Rightarrow> wevent list \<Rightarrow> wroom" where
  "wrun stored evs = foldl wstep (Room_constructor stored) evs"







definition reads :: "wroom \<Rightarrow> nat" where
  "reads r = length (filter (\<lambda>x. x = Get) (storage_log r))"

text \<open>The engine rejects the move of the message on the game object of the room.\<close>

definition engine_rejects :: "'g engine \<Rightarrow> 'g room \<Rightarrow> move_msg \<Rightarrow> bool" where
  "engine_rejects eng r m =
     (case room_game eng r of
        None \<Rightarrow> False
      | Some g \<Rightarrow> chess_move eng g (the (mv_from m)) (the (mv_to m))
                    (str_or (mv_promotion m) ''q'') = None)"

definition games_present :: "'g rooms \<Rightarrow> bool" where
  "games_present rs = list_all (\<lambda>(k, r). game r \<noteq> None) rs"

text \<open>A connection that holds a seat of the room and is in its spectator set.\<close>

definition seat_and_spectator :: "'g room \<Rightarrow> ws \<Rightarrow> bool" where
  "seat_and_spectator r c =
     ((white r = Some c \<or> black r = Some c) \<and> c \<in> set (spectators r))"

text \<open>The seats and the spectator set of a room are kept apart: no spectator holds
  a seat, no connection holds both seats, and seat-holders and spectators are clients
  of the room.\<close>

definition seats_apart :: "'g room \<Rightarrow> bool" where
  "seats_apart r =
     (list_all (\<lambda>c. white r \<noteq> Some c \<and> black r \<noteq> Some c) (spectators r) \<and>
      list_all (\<lambda>c. c \<in> set (clients r)) (spectators r) \<and>
      (case white r of None \<Rightarrow> True | Some c \<Rightarrow> c \<in> set (clients r) \<and> black r \<noteq> Some c) \<and>
      (case black r of None \<Rightarrow> True | Some c \<Rightarrow> c \<in> set (clients r)))"

definition all_seats_apart :: "'g rooms \<Rightarrow> bool" where
  "all_seats_apart rs = list_all (\<lambda>(k, r). seats_apart r) rs"

text \<open>A list of events in which no connection sends \<^verbatim>\<open>join\<close> for a room it is
  already a client of, run from the table \<open>rs\<close>.\<close>

fun joins_once :: "'g engine \<Rightarrow> 'g rooms \<Rightarrow> srv_event list \<Rightarrow> bool" where
  "joins_once eng rs [] = True"
| "joins_once eng rs (Join c m # evs) =
     (c \<notin> set (clients (find_or_new_room eng rs (j_roomId m))) \<and>
      joins_once eng (srv_step eng rs (Join c m)) evs)"
| "joins_once eng rs (ev # evs) = joins_once eng (srv_step eng rs ev) evs"

text \<open>The rating and the number of games of a user as the coordinators read them: a
  null column counts as 0 (\<^verbatim>\<open>rating || 0\<close>, \<^verbatim>\<open>gamesPlayed ?? 0\<close>).\<close>

definition rating_of :: "db \<Rightarrow> int \<Rightarrow> int" where
  "rating_of d uid = rating_or0 (getUser d uid)"

definition played_of :: "db \<Rightarrow> int \<Rightarrow> int" where
  "played_of d uid = (case getUser d uid of None \<Rightarrow> 0 | Some u \<Rightarrow> num_or0 (gamesPlayed u))"



text \<open>
  An engine for the concrete evaluations below. It knows two positions and agrees
  with \<^verbatim>\<open>chess.js\<close> on what is asked of it there: from the initial position the
  pawn move e2-e4 is accepted, and the move e2-e5 is rejected. The position after
  e2-e4 is written as \<^verbatim>\<open>chess.js\<close> 1.x writes it, which names an en-passant
  square only when a pawn can capture there.
\<close>

datatype demo_game = Initial | After_e4

definition start_fen :: string where
  "start_fen = ''rnbqkbnr/pppppppp/8/8/8/8/PPPPPPPP/RNBQKBNR w KQkq - 0 1''"

definition e4_fen :: string where
  "e4_fen = ''rnbqkbnr/pppppppp/8/8/4P3/8/PPPP1PPP/RNBQKBNR b KQkq - 0 1''"

definition demo_engine :: "demo_game engine" where
  "demo_engine =
     \<lparr> new_chess = Initial,
       load_chess = (\<lambda>f. if f = start_fen then Some Initial
                          else if f = e4_fen then Some After_e4 else None),
       chess_fen = (\<lambda>g. case g of Initial \<Rightarrow> start_fen | After_e4 \<Rightarrow> e4_fen),
       chess_move = (\<lambda>g f t p. if g = Initial \<and> f = ''e2'' \<and> t = ''e4''
                                then Some After_e4 else None) \<rparr>"

text \<open>The messages and stored rows of the concrete evaluations: the room \<^verbatim>\<open>r1\<close>,
  the users 10 (ann) and 20 (bob).\<close>

definition jm :: "int \<Rightarrow> string \<Rightarrow> join_msg" where
  "jm uid name = \<lparr> j_roomId = ''r1'', j_userId = Some uid, j_username = Some name \<rparr>"


definition mv :: "string \<Rightarrow> string \<Rightarrow> string \<Rightarrow> move_msg" where
  "mv f t p = \<lparr> mv_roomId = ''r1'', mv_from = Some f, mv_to = Some t,
               mv_promotion = None, mv_fen = Some p \<rparr>"

definition gom :: "string \<Rightarrow> string option \<Rightarrow> game_over_msg" where
  "gom res wc = \<lparr> go_roomId = ''r1'', go_result = Some res, go_winnerColor = wc \<rparr>"

definition new_user :: user where
  "new_user = \<lparr> rating = Some 1200, gamesPlayed = Some 0, wins = Some 0,
                losses = Some 0, draws = Some 0 \<rparr>"

definition demo_db :: db where
  "demo_db = \<lparr> users = [10 \<mapsto> new_user, 20 \<mapsto> new_user], games = [] \<rparr>"

definition two_seated :: "demo_game rooms" where
  "two_seated = srv_run demo_engine [Join 1 (jm 10 ''ann''), Join 2 (jm 20 ''bob'')]"

definition two_seatedW :: wroom where
  "two_seatedW = wrun None [Connect 1 (Some (10, ''ann'')), Connect 2 (Some (20, ''bob''))]"






text \<open>A move message that names a promotion piece.\<close>

definition mvp :: "string \<Rightarrow> string \<Rightarrow> string \<Rightarrow> string \<Rightarrow> move_msg" where
  "mvp f t pr p = \<lparr> mv_roomId = ''r1'', mv_from = Some f, mv_to = Some t,
                    mv_promotion = Some pr, mv_fen = Some p \<rparr>"

section \<open>Properties of the server's move handler\<close>

lemma update_same: "map_of rs k = Some v \<Longrightarrow> AList.update k v rs = rs"
  by (induction rs) (auto split: if_splits)

lemma games_present_update:
  "games_present rs \<Longrightarrow> game r = Some g \<Longrightarrow> games_present (AList.update k r rs)"
  by (induction rs) (auto simp: games_present_def)

lemma games_present_lookup:
  "games_present rs \<Longrightarrow> map_of rs k = Some r \<Longrightarrow> \<exists>g. game r = Some g"
  by (induction rs) (auto simp: games_present_def split: if_splits)

lemma join_room_game: "game (fst (join_room r c m)) = game r"
  by (simp add: join_room_def assign_seat_def start_room_def Let_def split: prod.splits if_splits)

lemma find_or_new_room_game:
  "games_present rs \<Longrightarrow> \<exists>g. game (find_or_new_room eng rs k) = Some g"
  by (auto simp: find_or_new_room_def new_room_def split: option.splits
      dest: games_present_lookup)

lemma games_present_join:
  assumes "games_present rs"
  shows "games_present (fst (join_handler eng rs c m))"
proof -
  obtain g where "game (fst (join_room (find_or_new_room eng rs (j_roomId m)) c m)) = Some g"
    using find_or_new_room_game [OF assms] by (auto simp: join_room_game)
  then show ?thesis
    using assms by (simp add: join_handler_def split_def Let_def games_present_update)
qed

lemma games_present_move:
  "games_present rs \<Longrightarrow> games_present (fst (move_handler eng rs c cur m))"
  by (auto simp: move_handler_def split: option.splits intro!: games_present_update)

lemma games_present_close:
  "games_present rs \<Longrightarrow> games_present (fst (close_handler rs q c))"
  by (induction rs) (auto simp: games_present_def close_handler_def close_room_def Let_def)

lemma games_present_step: "games_present rs \<Longrightarrow> games_present (srv_step eng rs ev)"
  by (cases ev) (simp_all add: games_present_join games_present_move games_present_close)

lemma games_present_foldl:
  "games_present rs \<Longrightarrow> games_present (foldl (srv_step eng) rs evs)"
  by (induction evs arbitrary: rs) (simp_all add: games_present_step)

lemma games_present_run: "games_present (srv_run eng evs)"
proof -
  have "games_present []" by (simp add: games_present_def)
  then show ?thesis unfolding srv_run_def by (rule games_present_foldl)
qed

lemma move_handler_rejected:
  assumes "map_of rs (mv_roomId m) = Some r"
      and "game r = Some g"
      and "chess_move eng g (the (mv_from m)) (the (mv_to m)) (str_or (mv_promotion m) ''q'') = None"
  shows "move_handler eng rs c cur m = (rs, [])"
proof -
  have same: "r\<lparr> game := Some g \<rparr> = r" using assms(2) by simp
  have "room_game eng r = Some g" using assms(2) by (simp add: room_game_def)
  then show ?thesis
    using assms(1,3) by (simp add: move_handler_def same update_same)
qed

lemma move_handler_accepted:
  assumes "map_of rs (mv_roomId m) = Some r"
      and "game r = Some g"
      and "truthy_str (mv_from m)" and "truthy_str (mv_to m)"
      and "chess_move eng g (the (mv_from m)) (the (mv_to m)) (str_or (mv_promotion m) ''q'') = Some g'"
  shows "move_handler eng rs c cur m =
           (AList.update (mv_roomId m) (r\<lparr> game := Some g', fen := Some (chess_fen eng g') \<rparr>) rs,
            fan_out (clients r) c
              (Move_out (the (mv_from m)) (the (mv_to m)) (str_or (mv_promotion m) ''q'')
                 (chess_fen eng g') cur))"
proof -
  have "room_game eng r = Some g" using assms(2) by (simp add: room_game_def)
  then show ?thesis
    using assms(1,3,4,5) by (simp add: move_handler_def)
qed

lemma move_handler_ignores_fen:
  "move_handler eng rs c cur (m\<lparr> mv_fen := p \<rparr>) = move_handler eng rs c cur m"
  by (simp add: move_handler_def split: option.splits)

lemma move_message_stores:
  assumes "mv_from m = Some f" and "mv_to m = Some t" and "mv_fen m = Some p"
  shows "fenW (fst (move_message r c m)) = Some p"
    and "snd (move_message r c m) =
           map (\<lambda>(s, _). (s, Move_out f t (str_or (mv_promotion m) ''q'') p None)) (socketsW r)"
  using assms by (simp_all add: move_message_def persist_def broadcast_def Let_def)

text \<open>
  C10: a move that the rules engine rejects leaves the server as it was and is sent to
  no one. For every room table the server can reach from its empty table by joins,
  moves and closes, a \<^verbatim>\<open>move\<close> message for an existing room whose move the
  engine rejects on the room's game object returns the same table (positions and game
  objects included) and an empty list of sends.
\<close>

theorem rejected_move_changes_nothing:
  assumes "rs = srv_run eng evs"
      and "map_of rs (mv_roomId m) = Some r"
      and "engine_rejects eng r m"
  shows "move_handler eng rs c cur m = (rs, [])"
proof -
  from assms(1,2) obtain g where g: "game r = Some g"
    using games_present_run games_present_lookup by blast
  then have "room_game eng r = Some g"
    by (simp add: room_game_def)
  with assms(3) have "chess_move eng g (the (mv_from m)) (the (mv_to m))
      (str_or (mv_promotion m) ''q'') = None"
    by (simp add: engine_rejects_def)
  with assms(2) g show ?thesis
    by (rule move_handler_rejected)
qed

lemma two_seated_room:
  "map_of two_seated ''r1'' =
     Some \<lparr> room_id = ''r1'', clients = [1, 2], fen = Some start_fen,
            white = Some 1, black = Some 2, whiteId = Some 10, blackId = Some 20,
            whiteUsername = Some ''ann'', blackUsername = Some ''bob'',
            started = True, spectators = [], game = Some Initial \<rparr>"
  by code_simp

theorem rejected_move_changes_nothing_witness:
  "engine_rejects demo_engine (the (map_of two_seated ''r1'')) (mv ''e2'' ''e5'' ''P1'') \<and>
   move_handler demo_engine two_seated 1 (Some 10) (mv ''e2'' ''e5'' ''P1'') = (two_seated, [])"
proof -
  have run: "two_seated = srv_run demo_engine [Join 1 (jm 10 ''ann''), Join 2 (jm 20 ''bob'')]"
    by (simp add: two_seated_def)
  have room: "map_of two_seated (mv_roomId (mv ''e2'' ''e5'' ''P1''))
                = Some (the (map_of two_seated ''r1''))"
    by (simp add: mv_def two_seated_room)
  have rej: "engine_rejects demo_engine (the (map_of two_seated ''r1'')) (mv ''e2'' ''e5'' ''P1'')"
    by code_simp
  show ?thesis
    using rej rejected_move_changes_nothing [OF run room rej] by simp
qed

text \<open>
  C1, as stated, fails on the server: with white (connection 1) and black (connection
  2) seated in room r1, connection 1 sends the move e2-e5 with the resulting position
  P1. The engine rejects it, so nothing is sent and the stored position stays the
  initial one, not P1.
\<close>

theorem move_validated_counterexample:
  "snd (move_handler demo_engine two_seated 1 (Some 10) (mv ''e2'' ''e5'' ''P1'')) = [] \<and>
   map_option fen (map_of (fst (move_handler demo_engine two_seated 1 (Some 10)
      (mv ''e2'' ''e5'' ''P1''))) ''r1'') = Some (Some start_fen) \<and>
   start_fen \<noteq> ''P1''"
  by code_simp

text \<open>
  C1, amended: for a \<^verbatim>\<open>move\<close> message with non-empty from and to and a
  position \<open>p\<close>, the worker stores \<open>p\<close> without validating the move, and what the
  other sockets of the room receive is the move with \<open>p\<close>, once each. The server,
  on a room with its game object (every room it creates has one), never reads the
  position of the message (any other position gives the same result): it asks the
  rules engine; when the engine rejects the move the table is unchanged and nothing is
  sent; when it accepts, the stored position is the engine's and the move goes, with
  that position, to every client of the room but the sender. A missing promotion
  piece is sent on as \<^verbatim>\<open>q\<close>, a named one as it came.
\<close>

theorem move_stored_position:
  assumes "map_of rs (mv_roomId m) = Some r" and "game r = Some g"
      and "mv_from m = Some f" and "f \<noteq> []" and "mv_to m = Some t" and "t \<noteq> []"
      and "mv_fen m = Some p"
      and "move_handler eng rs c cur m = (rs', out)"
      and "move_message rw c m = (rw', outw)"
  shows "fenW rw' = Some p \<and>
         filter (\<lambda>x. fst x \<noteq> c) outw =
           map (\<lambda>x. (fst x, Move_out f t (case mv_promotion m of None \<Rightarrow> ''q''
                                            | Some pr \<Rightarrow> if pr = [] then ''q'' else pr) p None))
             (filter (\<lambda>x. fst x \<noteq> c) (socketsW rw)) \<and>
         move_handler eng rs c cur (m\<lparr> mv_fen := p' \<rparr>) = (rs', out) \<and>
         (chess_move eng g f t (str_or (mv_promotion m) ''q'') = None \<longrightarrow> rs' = rs \<and> out = []) \<and>
         (\<forall>g'. chess_move eng g f t (str_or (mv_promotion m) ''q'') = Some g' \<longrightarrow>
            map_option fen (map_of rs' (mv_roomId m)) = Some (Some (chess_fen eng g')) \<and>
            out = fan_out (clients r) c
                    (Move_out f t (case mv_promotion m of None \<Rightarrow> ''q''
                                   | Some pr \<Rightarrow> if pr = [] then ''q'' else pr)
                       (chess_fen eng g') cur))"
proof -
  have tr: "truthy_str (mv_from m)" "truthy_str (mv_to m)"
    using assms(3-6) by (simp_all add: truthy_str_def)
  have pr: "str_or (mv_promotion m) ''q'' =
      (case mv_promotion m of None \<Rightarrow> ''q'' | Some pr \<Rightarrow> if pr = [] then ''q'' else pr)"
    by (simp add: str_or_def truthy_str_def split: option.splits)
  have w1: "fenW rw' = Some p"
    using move_message_stores(1) [OF assms(3,5,7), of rw c] assms(9) by simp
  have "outw = map (\<lambda>(s, _). (s, Move_out f t (str_or (mv_promotion m) ''q'') p None)) (socketsW rw)"
    using move_message_stores(2) [OF assms(3,5,7), of rw c] assms(9) by simp
  then have w2: "filter (\<lambda>x. fst x \<noteq> c) outw =
           map (\<lambda>x. (fst x, Move_out f t (str_or (mv_promotion m) ''q'') p None))
             (filter (\<lambda>x. fst x \<noteq> c) (socketsW rw))"
    by (simp add: filter_map comp_def split_def)
  have ign: "move_handler eng rs c cur (m\<lparr> mv_fen := p' \<rparr>) = (rs', out)"
    using assms(8) by (simp add: move_handler_ignores_fen)
  have rej: "rs' = rs \<and> out = []"
    if "chess_move eng g f t (str_or (mv_promotion m) ''q'') = None"
    using move_handler_rejected [OF assms(1,2), of eng c cur] that assms(3,5,8) by simp
  have acc: "map_option fen (map_of rs' (mv_roomId m)) = Some (Some (chess_fen eng g')) \<and>
            out = fan_out (clients r) c
                    (Move_out f t (str_or (mv_promotion m) ''q'') (chess_fen eng g') cur)"
    if "chess_move eng g f t (str_or (mv_promotion m) ''q'') = Some g'" for g'
    using move_handler_accepted [OF assms(1,2) tr, of eng g' c cur] that assms(3,5,8)
    by (auto simp: update_conv')
  show ?thesis
    using w1 w2 ign rej acc unfolding pr by blast
qed

theorem move_stored_position_witness:
  "fenW (fst (move_message two_seatedW 1 (mv ''e2'' ''e4'' ''P1''))) = Some ''P1'' \<and>
   filter (\<lambda>x. fst x \<noteq> 1) (snd (move_message two_seatedW 1 (mv ''e2'' ''e4'' ''P1''))) =
     [(2, Move_out ''e2'' ''e4'' ''q'' ''P1'' None)] \<and>
   filter (\<lambda>x. fst x \<noteq> 1) (snd (move_message two_seatedW 1 (mvp ''e2'' ''e4'' ''n'' ''P1''))) =
     [(2, Move_out ''e2'' ''e4'' ''n'' ''P1'' None)] \<and>
   map_option fen (map_of (fst (move_handler demo_engine two_seated 1 (Some 10)
      (mv ''e2'' ''e4'' ''P1''))) ''r1'') = Some (Some e4_fen) \<and>
   snd (move_handler demo_engine two_seated 1 (Some 10) (mv ''e2'' ''e4'' ''P1'')) =
     [(2, Move_out ''e2'' ''e4'' ''q'' e4_fen (Some 10))] \<and>
   snd (move_handler demo_engine two_seated 1 (Some 10) (mvp ''e2'' ''e4'' ''n'' ''P1'')) =
     [(2, Move_out ''e2'' ''e4'' ''n'' e4_fen (Some 10))]"
proof -
  let ?m = "mv ''e2'' ''e4'' ''P1''"
  let ?n = "mvp ''e2'' ''e4'' ''n'' ''P1''"
  let ?r = "the (map_of two_seated ''r1'')"
  have h1: "map_of two_seated (mv_roomId ?m) = Some ?r" "map_of two_seated (mv_roomId ?n) = Some ?r"
    by (simp_all add: mv_def mvp_def two_seated_room)
  have h2: "game ?r = Some Initial"
    by (simp add: two_seated_room)
  have h3: "mv_from ?m = Some ''e2''" "mv_from ?n = Some ''e2''" and h4: "''e2'' \<noteq> []"
    and h5: "mv_to ?m = Some ''e4''" "mv_to ?n = Some ''e4''" and h6: "''e4'' \<noteq> []"
    and h7: "mv_fen ?m = Some ''P1''" "mv_fen ?n = Some ''P1''"
    by (simp_all add: mv_def mvp_def)
  have h8: "move_handler demo_engine two_seated 1 (Some 10) ?m =
      (fst (move_handler demo_engine two_seated 1 (Some 10) ?m),
       snd (move_handler demo_engine two_seated 1 (Some 10) ?m))"
    "move_handler demo_engine two_seated 1 (Some 10) ?n =
      (fst (move_handler demo_engine two_seated 1 (Some 10) ?n),
       snd (move_handler demo_engine two_seated 1 (Some 10) ?n))"
    by simp_all
  have h9: "move_message two_seatedW 1 ?m =
      (fst (move_message two_seatedW 1 ?m), snd (move_message two_seatedW 1 ?m))"
    "move_message two_seatedW 1 ?n =
      (fst (move_message two_seatedW 1 ?n), snd (move_message two_seatedW 1 ?n))"
    by simp_all
  have acc: "chess_move demo_engine Initial ''e2'' ''e4'' (str_or (mv_promotion ?m) ''q'') = Some After_e4"
    "chess_move demo_engine Initial ''e2'' ''e4'' (str_or (mv_promotion ?n) ''q'') = Some After_e4"
    by code_simp+
  have socks: "socketsW two_seatedW =
      [(1, \<lparr> rc_userId = Some 10, rc_username = Some ''ann'', rc_role = W \<rparr>),
       (2, \<lparr> rc_userId = Some 20, rc_username = Some ''bob'', rc_role = B \<rparr>)]"
    by code_simp
  have rid: "mv_roomId ?m = ''r1''" "mv_promotion ?m = None" "mv_promotion ?n = Some ''n''"
    by (simp_all add: mv_def mvp_def)
  have vals: "chess_fen demo_engine After_e4 = e4_fen" "clients ?r = [1, 2]"
    by (simp_all add: demo_engine_def two_seated_room)
  note plain = move_stored_position [OF h1(1) h2 h3(1) h4 h5(1) h6 h7(1) h8(1) h9(1), of "Some ''P2''"]
  note named = move_stored_position [OF h1(2) h2 h3(2) h4 h5(2) h6 h7(2) h8(2) h9(2), of "Some ''P2''"]
  show ?thesis
    using plain named acc socks vals rid by (simp add: fan_out_def)
qed

section \<open>Seat assignment\<close>

lemma assign_seat_cases:
  "white r = None \<Longrightarrow> snd (assign_seat r c m) = W \<and> white (fst (assign_seat r c m)) = Some c
     \<and> black (fst (assign_seat r c m)) = black r"
  "white r \<noteq> None \<Longrightarrow> black r = None \<Longrightarrow>
     snd (assign_seat r c m) = B \<and> white (fst (assign_seat r c m)) = white r
     \<and> black (fst (assign_seat r c m)) = Some c"
  "white r \<noteq> None \<Longrightarrow> black r \<noteq> None \<Longrightarrow>
     snd (assign_seat r c m) = S \<and> white (fst (assign_seat r c m)) = white r
     \<and> black (fst (assign_seat r c m)) = black r \<and> c \<in> set (spectators (fst (assign_seat r c m)))"
  by (auto simp: assign_seat_def set_add_def)

lemma start_room_keeps:
  "white (fst (start_room r)) = white r"
  "black (fst (start_room r)) = black r"
  "spectators (fst (start_room r)) = spectators r"
  by (simp_all add: start_room_def)

lemma join_room_seats:
  fixes r c m
  defines "r2 \<equiv> fst (assign_seat (r\<lparr> clients := set_add c (clients r) \<rparr>) c m)"
  shows "white (fst (join_room r c m)) = white r2"
    and "black (fst (join_room r c m)) = black r2"
    and "spectators (fst (join_room r c m)) = spectators r2"
    and "fst (snd (join_room r c m)) = snd (assign_seat (r\<lparr> clients := set_add c (clients r) \<rparr>) c m)"
    and "(c, Role_msg (fst (snd (join_room r c m)))
             (fst (snd (join_room r c m)) \<noteq> S \<and> \<not> both_seated r2))
           \<in> set (snd (snd (join_room r c m)))"
  by (simp_all add: join_room_def r2_def Let_def split_def start_room_keeps)

lemma join_handler_parts:
  "fst (join_handler eng rs c m) =
     AList.update (j_roomId m) (fst (join_room (find_or_new_room eng rs (j_roomId m)) c m)) rs"
  "snd (join_handler eng rs c m) = snd (snd (join_room (find_or_new_room eng rs (j_roomId m)) c m))"
  by (simp_all add: join_handler_def split_def Let_def)

lemma join_server:
  assumes "join_handler eng rs c m = (rs', out)"
      and "r0 = find_or_new_room eng rs (j_roomId m)"
  shows "\<exists>r'. map_of rs' (j_roomId m) = Some r' \<and>
     (white r0 = None \<and> black r0 = None \<longrightarrow>
        white r' = Some c \<and> black r' = None \<and> (c, Role_msg W True) \<in> set out) \<and>
     (white r0 \<noteq> None \<and> black r0 = None \<longrightarrow>
        white r' = white r0 \<and> black r' = Some c \<and> (c, Role_msg B False) \<in> set out) \<and>
     (white r0 \<noteq> None \<and> black r0 \<noteq> None \<longrightarrow>
        white r' = white r0 \<and> black r' = black r0 \<and> c \<in> set (spectators r') \<and>
        (c, Role_msg S False) \<in> set out)"
proof -
  let ?r1 = "r0\<lparr> clients := set_add c (clients r0) \<rparr>"
  let ?r' = "fst (join_room r0 c m)"
  have rs': "map_of rs' (j_roomId m) = Some ?r'"
    using assms join_handler_parts(1) [of eng rs c m] by (simp add: update_conv')
  have out: "out = snd (snd (join_room r0 c m))"
    using assms join_handler_parts(2) [of eng rs c m] by simp
  have seats: "white ?r1 = white r0" "black ?r1 = black r0" by simp_all
  note js = join_room_seats [where r = r0 and c = c and m = m]
  have a: "white ?r' = Some c \<and> black ?r' = None \<and> (c, Role_msg W True) \<in> set out"
    if "white r0 = None" "black r0 = None"
    using that js assign_seat_cases(1) [of ?r1 c m] out by (auto simp: both_seated_def)
  have b: "white ?r' = white r0 \<and> black ?r' = Some c \<and> (c, Role_msg B False) \<in> set out"
    if "white r0 \<noteq> None" "black r0 = None"
    using that js assign_seat_cases(2) [of ?r1 c m] out by (auto simp: both_seated_def)
  have s: "white ?r' = white r0 \<and> black ?r' = black r0 \<and> c \<in> set (spectators ?r') \<and>
        (c, Role_msg S False) \<in> set out"
    if "white r0 \<noteq> None" "black r0 \<noteq> None"
    using that js assign_seat_cases(3) [of ?r1 c m] out by (auto simp: both_seated_def)
  show ?thesis using rs' a b s by (intro exI [of _ ?r']) simp
qed

lemma maybeStart_keeps:
  "whiteW (fst (maybeStart r)) = whiteW r"
  "blackW (fst (maybeStart r)) = blackW r"
  "socketsW (fst (maybeStart r)) = socketsW r"
  by (simp_all add: maybeStart_def persist_def)

lemma assignRole_cases:
  "whiteW r = None \<Longrightarrow> snd (assignRole r c u n) = W \<and> whiteW (fst (assignRole r c u n)) = Some c
     \<and> blackW (fst (assignRole r c u n)) = blackW r"
  "whiteW r \<noteq> None \<Longrightarrow> blackW r = None \<Longrightarrow>
     snd (assignRole r c u n) = B \<and> whiteW (fst (assignRole r c u n)) = whiteW r
     \<and> blackW (fst (assignRole r c u n)) = Some c"
  "whiteW r \<noteq> None \<Longrightarrow> blackW r \<noteq> None \<Longrightarrow>
     snd (assignRole r c u n) = S \<and> whiteW (fst (assignRole r c u n)) = whiteW r
     \<and> blackW (fst (assignRole r c u n)) = blackW r"
  "map_option rc_role (map_of (socketsW (fst (assignRole r c u n))) c) = Some (snd (assignRole r c u n))"
  by (auto simp: assignRole_def update_conv')

lemma fetch_parts:
  fixes r c auth
  defines "a \<equiv> assignRole r c (map_option fst auth) (map_option snd auth)"
  shows "whiteW (fst (fetch r c auth)) = whiteW (fst a)"
    and "blackW (fst (fetch r c auth)) = blackW (fst a)"
    and "socketsW (fst (fetch r c auth)) = socketsW (fst a)"
    and "(c, Role_msg (snd a) (snd a \<noteq> S \<and> \<not> (whiteW (fst a) \<noteq> None \<and> blackW (fst a) \<noteq> None)))
           \<in> set (snd (fetch r c auth))"
  by (simp_all add: fetch_def a_def Let_def split_def maybeStart_keeps)

lemma fetch_worker:
  assumes "fetch r c auth = (r', out)"
  shows "(whiteW r = None \<and> blackW r = None \<longrightarrow>
        whiteW r' = Some c \<and> blackW r' = None \<and>
        map_option rc_role (map_of (socketsW r') c) = Some W \<and> (c, Role_msg W True) \<in> set out) \<and>
     (whiteW r \<noteq> None \<and> blackW r = None \<longrightarrow>
        whiteW r' = whiteW r \<and> blackW r' = Some c \<and>
        map_option rc_role (map_of (socketsW r') c) = Some B \<and> (c, Role_msg B False) \<in> set out) \<and>
     (whiteW r \<noteq> None \<and> blackW r \<noteq> None \<longrightarrow>
        whiteW r' = whiteW r \<and> blackW r' = blackW r \<and>
        map_option rc_role (map_of (socketsW r') c) = Some S \<and> (c, Role_msg S False) \<in> set out)"
proof -
  let ?a = "assignRole r c (map_option fst auth) (map_option snd auth)"
  note fp = fetch_parts [where r = r and c = c and auth = auth]
  have r': "r' = fst (fetch r c auth)" and out: "out = snd (fetch r c auth)"
    using assms by simp_all
  note ac = assignRole_cases [of r c "map_option fst auth" "map_option snd auth"]
  have a: "whiteW r' = Some c \<and> blackW r' = None \<and>
        map_option rc_role (map_of (socketsW r') c) = Some W \<and> (c, Role_msg W True) \<in> set out"
    if "whiteW r = None" "blackW r = None"
    using that fp ac(1,4) r' out by auto
  have b: "whiteW r' = whiteW r \<and> blackW r' = Some c \<and>
        map_option rc_role (map_of (socketsW r') c) = Some B \<and> (c, Role_msg B False) \<in> set out"
    if "whiteW r \<noteq> None" "blackW r = None"
    using that fp ac(2,4) r' out by auto
  have s: "whiteW r' = whiteW r \<and> blackW r' = blackW r \<and>
        map_option rc_role (map_of (socketsW r') c) = Some S \<and> (c, Role_msg S False) \<in> set out"
    if "whiteW r \<noteq> None" "blackW r \<noteq> None"
    using that fp ac(3,4) r' out by auto
  show ?thesis using a b s by simp
qed

text \<open>
  C9: the seat of a joining connection follows the occupancy of the room. On the
  server, with \<open>r0\<close> the room of the \<^verbatim>\<open>join\<close> message (found in the table,
  or created when the id is new), and on the worker, for a connection entering the
  \<^verbatim>\<open>Room\<close>: with no seat taken the joiner gets white, with only white
  taken it gets black, with both taken it becomes a spectator, and the
  \<^verbatim>\<open>role\<close> message it receives says so.
\<close>

theorem join_seat_by_occupancy:
  assumes "join_handler eng rs c m = (rs', out)"
      and "r0 = find_or_new_room eng rs (j_roomId m)"
      and "fetch rw d auth = (rw', outw)"
  shows "(\<exists>r'. map_of rs' (j_roomId m) = Some r' \<and>
     (white r0 = None \<and> black r0 = None \<longrightarrow>
        white r' = Some c \<and> black r' = None \<and> (c, Role_msg W True) \<in> set out) \<and>
     (white r0 \<noteq> None \<and> black r0 = None \<longrightarrow>
        white r' = white r0 \<and> black r' = Some c \<and> (c, Role_msg B False) \<in> set out) \<and>
     (white r0 \<noteq> None \<and> black r0 \<noteq> None \<longrightarrow>
        white r' = white r0 \<and> black r' = black r0 \<and> c \<in> set (spectators r') \<and>
        (c, Role_msg S False) \<in> set out)) \<and>
    (whiteW rw = None \<and> blackW rw = None \<longrightarrow>
        whiteW rw' = Some d \<and> blackW rw' = None \<and>
        map_option rc_role (map_of (socketsW rw') d) = Some W \<and> (d, Role_msg W True) \<in> set outw) \<and>
    (whiteW rw \<noteq> None \<and> blackW rw = None \<longrightarrow>
        whiteW rw' = whiteW rw \<and> blackW rw' = Some d \<and>
        map_option rc_role (map_of (socketsW rw') d) = Some B \<and> (d, Role_msg B False) \<in> set outw) \<and>
    (whiteW rw \<noteq> None \<and> blackW rw \<noteq> None \<longrightarrow>
        whiteW rw' = whiteW rw \<and> blackW rw' = blackW rw \<and>
        map_option rc_role (map_of (socketsW rw') d) = Some S \<and> (d, Role_msg S False) \<in> set outw)"
  using join_server [OF assms(1,2)] fetch_worker [OF assms(3)] by (rule conjI)

theorem join_seat_by_occupancy_witness:
  "(1, Role_msg W True) \<in> set (snd (join_handler demo_engine [] 1 (jm 10 ''ann''))) \<and>
   (2, Role_msg B False) \<in> set (snd (join_handler demo_engine
        (srv_run demo_engine [Join 1 (jm 10 ''ann'')]) 2 (jm 20 ''bob''))) \<and>
   (3, Role_msg S False) \<in> set (snd (join_handler demo_engine two_seated 3 (jm 30 ''cy''))) \<and>
   (1, Role_msg W True) \<in> set (snd (fetch (wrun None []) 1 (Some (10, ''ann'')))) \<and>
   (2, Role_msg B False) \<in> set (snd (fetch (wrun None [Connect 1 (Some (10, ''ann''))]) 2
        (Some (20, ''bob'')))) \<and>
   (3, Role_msg S False) \<in> set (snd (fetch two_seatedW 3 (Some (30, ''cy''))))"
proof -
  let ?s1 = "[] :: demo_game rooms"
  let ?s2 = "srv_run demo_engine [Join 1 (jm 10 ''ann'')]"
  let ?w1 = "wrun None []"
  let ?w2 = "wrun None [Connect 1 (Some (10, ''ann''))]"
  have s1: "white (find_or_new_room demo_engine ?s1 (j_roomId (jm 10 ''ann''))) = None"
           "black (find_or_new_room demo_engine ?s1 (j_roomId (jm 10 ''ann''))) = None"
    by code_simp+
  have s2: "white (find_or_new_room demo_engine ?s2 (j_roomId (jm 20 ''bob''))) \<noteq> None"
           "black (find_or_new_room demo_engine ?s2 (j_roomId (jm 20 ''bob''))) = None"
    by code_simp+
  have s3: "white (find_or_new_room demo_engine two_seated (j_roomId (jm 30 ''cy''))) \<noteq> None"
           "black (find_or_new_room demo_engine two_seated (j_roomId (jm 30 ''cy''))) \<noteq> None"
    by code_simp+
  have w1: "whiteW ?w1 = None" "blackW ?w1 = None" by code_simp+
  have w2: "whiteW ?w2 \<noteq> None" "blackW ?w2 = None" by code_simp+
  have w3: "whiteW two_seatedW \<noteq> None" "blackW two_seatedW \<noteq> None" by code_simp+
  have pair: "\<And>x. x = (fst x, snd x)" by simp
  have a: "(1, Role_msg W True) \<in> set (snd (join_handler demo_engine ?s1 1 (jm 10 ''ann''))) \<and>
           (1, Role_msg W True) \<in> set (snd (fetch ?w1 1 (Some (10, ''ann''))))"
    using join_seat_by_occupancy [OF pair refl pair, of demo_engine ?s1 1 "jm 10 ''ann''"
        ?w1 1 "Some (10, ''ann'')"] s1 w1
    by auto
  have b: "(2, Role_msg B False) \<in> set (snd (join_handler demo_engine ?s2 2 (jm 20 ''bob''))) \<and>
           (2, Role_msg B False) \<in> set (snd (fetch ?w2 2 (Some (20, ''bob''))))"
    using join_seat_by_occupancy [OF pair refl pair, of demo_engine ?s2 2 "jm 20 ''bob''"
        ?w2 2 "Some (20, ''bob'')"] s2 w2
    by auto
  have c: "(3, Role_msg S False) \<in> set (snd (join_handler demo_engine two_seated 3 (jm 30 ''cy''))) \<and>
           (3, Role_msg S False) \<in> set (snd (fetch two_seatedW 3 (Some (30, ''cy''))))"
    using join_seat_by_occupancy [OF pair refl pair, of demo_engine two_seated 3 "jm 30 ''cy''"
        two_seatedW 3 "Some (30, ''cy'')"] s3 w3
    by auto
  show ?thesis using a b c by simp
qed

section \<open>Settlement on the server\<close>




lemma advance_pending [simp]: "advance r (t\<lparr> gt_pending := p \<rparr>) = advance r t"
  by (simp add: advance_def split_def)



lemma run_settled:
  "gt_pending t = Settled \<Longrightarrow> game_over_run n r (d, t, out) = (d, t, out)"
  by (induction n) (simp_all add: game_over_resume_def)










text \<open>The handler returns: every resumption uses up one of the storage calls that
  are left, and a task starts with at most seven.\<close>

lemma calls_left_advance: "calls_left (advance r t) = 3 * length (gt_todo t) + 1"
  by (cases "gt_todo t") (auto simp: advance_def next_op_def calls_left_def)

lemma calls_left_resume:
  "calls_left (fst (snd (game_over_resume r d t))) \<le> calls_left t - 1"
proof (cases "gt_pending t")
  case (Own_get st s uid)
  then show ?thesis
    by (cases st)
       (auto simp: game_over_resume_def calls_left_advance split: option.splits,
        auto simp: calls_left_def)
next
  case (Upd_get uid n)
  then show ?thesis
    by (auto simp: game_over_resume_def calls_left_advance split: option.splits)
       (auto simp: calls_left_def)
next
  case (Upd_write uid n e)
  then show ?thesis
    by (auto simp: game_over_resume_def calls_left_advance)
       (auto simp: calls_left_def)
next
  case (Create_game g)
  then show ?thesis
    by (auto simp: game_over_resume_def calls_left_def)
next
  case Settled
  then show ?thesis by (simp add: game_over_resume_def calls_left_def)
next
  case Aborted
  then show ?thesis by (simp add: game_over_resume_def calls_left_def)
qed

lemma calls_left_run:
  "calls_left (fst (snd (game_over_run n r (d, t, out)))) \<le> calls_left t - n"
proof (induction n arbitrary: d t out)
  case 0
  then show ?case by simp
next
  case (Suc n)
  obtain d' t' out' where s: "game_over_resume r d t = (d', t', out')"
    by (cases "game_over_resume r d t")
  have "calls_left t' \<le> calls_left t - 1"
    using calls_left_resume [of r d t] s by simp
  moreover have "calls_left (fst (snd (game_over_run n r (d', t', out @ out')))) \<le> calls_left t' - n"
    by (rule Suc.IH)
  ultimately show ?case
    using s by simp
qed

lemma game_over_returns:
  assumes "game_over_begin r c m = (Some t, out)"
  shows "gt_pending (fst (snd (game_over_run 7 r (d, t, out)))) = Settled
       \<or> gt_pending (fst (snd (game_over_run 7 r (d, t, out)))) = Aborted"
proof -
  have "length (plan (go_winnerColor m)) = 2"
    by (simp add: plan_def)
  then have "calls_left t = 7"
    using assms by (auto simp: game_over_begin_def calls_left_advance split: if_splits)
  then have "calls_left (fst (snd (game_over_run 7 r (d, t, out)))) = 0"
    using calls_left_run [of 7 r d t out] by simp
  then show ?thesis
    by (cases "gt_pending (fst (snd (game_over_run 7 r (d, t, out))))")
       (simp_all add: calls_left_def)
qed

section \<open>Settlement in the worker\<close>




lemma wadvance_pending [simp]: "wadvance (t\<lparr> wt_pending := p \<rparr>) = wadvance t"
  by (simp add: wadvance_def split: list.splits)







text \<open>\<^verbatim>\<open>handleGameOver\<close> returns as well: a task starts with five storage calls
  left.\<close>

lemma wcalls_left_advance: "wcalls_left (wadvance t) = 2 * length (wt_todo t)"
  by (cases "wt_todo t") (auto simp: wadvance_def wcalls_left_def)

lemma wcalls_left_resume:
  "wcalls_left (snd (handleGameOver_resume d t)) \<le> wcalls_left t - 1"
proof (cases "wt_pending t")
  case (W_insert g)
  then show ?thesis
    by (simp add: handleGameOver_resume_def wcalls_left_advance) (simp add: wcalls_left_def)
next
  case (W_select uid fld k)
  then show ?thesis
    by (auto simp: handleGameOver_resume_def wcalls_left_advance split: option.splits)
       (auto simp: wcalls_left_def)
next
  case (W_update uid row)
  then show ?thesis
    by (simp add: handleGameOver_resume_def wcalls_left_advance) (simp add: wcalls_left_def)
next
  case W_returned
  then show ?thesis by (simp add: handleGameOver_resume_def wcalls_left_def)
qed

lemma wcalls_left_run:
  "wcalls_left (snd (handleGameOver_run n (d, t))) \<le> wcalls_left t - n"
proof (induction n arbitrary: d t)
  case 0
  then show ?case by simp
next
  case (Suc n)
  obtain d' t' where s: "handleGameOver_resume d t = (d', t')"
    by (cases "handleGameOver_resume d t")
  have "wcalls_left t' \<le> wcalls_left t - 1"
    using wcalls_left_resume [of d t] s by simp
  moreover have "wcalls_left (snd (handleGameOver_run n (d', t'))) \<le> wcalls_left t' - n"
    by (rule Suc.IH)
  ultimately show ?case
    using s by simp
qed

lemma handleGameOver_returns:
  assumes "handleGameOver_begin r res wc = Some t"
  shows "wt_pending (snd (handleGameOver_run 5 (d, t))) = W_returned"
proof -
  have "length (wplan w b wc) = 2" for w b
    by (simp add: wplan_def)
  then have "wcalls_left t = 5"
    using assms by (auto simp: handleGameOver_begin_def wcalls_left_def split: if_splits)
  then have "wcalls_left (snd (handleGameOver_run 5 (d, t))) = 0"
    using wcalls_left_run [of 5 d t] by simp
  then show ?thesis
    by (cases "wt_pending (snd (handleGameOver_run 5 (d, t)))")
       (simp_all add: wcalls_left_def)
qed

section \<open>Settlement: the claims\<close>





text \<open>
  When the second \<^verbatim>\<open>game_over\<close> arrives while the first handler still waits for
  the store, the two handlers read the same rows: both write 1203 and a count of 1, so
  one of the two increments is lost. Two game rows are stored in this case too.
\<close>

lemma overlapping_game_over_loses_update:
  "rating_of (game_over_overlapping two_seated demo_db
       1 (gom ''1-0'' (Some ''w'')) 2 (gom ''1-0'' (Some ''w''))) 10 = 1203 \<and>
   played_of (game_over_overlapping two_seated demo_db
       1 (gom ''1-0'' (Some ''w'')) 2 (gom ''1-0'' (Some ''w''))) 10 = 1 \<and>
   played_of (game_over_overlapping two_seated demo_db
       1 (gom ''1-0'' (Some ''w'')) 2 (gom ''1-0'' (Some ''w''))) 20 = 1 \<and>
   length (games (game_over_overlapping two_seated demo_db
       1 (gom ''1-0'' (Some ''w'')) 2 (gom ''1-0'' (Some ''w'')))) = 2"
  by code_simp



section \<open>Matchmaking\<close>













section \<open>Persistence in the worker\<close>

lemma snapshot_of_persist: "snapshot_of (persist r) = snapshot_of r"
  by (simp add: snapshot_of_def persist_def)

lemma persist_stored: "storageW (persist r) = Some (snapshot_of (persist r))"
  by (simp add: snapshot_of_def persist_def)

lemma reads_persist: "reads (persist r) = reads r"
  by (simp add: reads_def persist_def)

lemma move_message_persists:
  assumes "mv_from m = Some f" and "mv_to m = Some t" and "mv_fen m = Some p"
  shows "storageW (fst (move_message r c m)) = Some (snapshot_of (fst (move_message r c m)))"
    and "s_fen (snapshot_of (fst (move_message r c m))) = Some p"
  using assms by (simp_all add: move_message_def Let_def persist_stored snapshot_of_persist)
     (simp add: snapshot_of_def)

lemma cleanup_persists:
  "storageW (fst (cleanup r c)) = Some (snapshot_of (fst (cleanup r c)))"
  by (simp add: cleanup_def Let_def persist_stored)

lemma maybeStart_persists:
  "(x, Start_game W) \<in> set (snd (maybeStart r)) \<Longrightarrow>
     storageW (fst (maybeStart r)) = Some (snapshot_of (fst (maybeStart r)))
     \<and> startedW (fst (maybeStart r))"
  by (auto simp: maybeStart_def persist_stored split: if_splits) (simp add: persist_def)

lemma fetch_start_persists:
  assumes "(x, Start_game W) \<in> set (snd (fetch r c auth))"
  shows "storageW (fst (fetch r c auth)) = Some (snapshot_of (fst (fetch r c auth)))
         \<and> startedW (fst (fetch r c auth))"
proof -
  let ?r1 = "fst (assignRole r c (map_option fst auth) (map_option snd auth))"
  have r': "fst (fetch r c auth) = fst (maybeStart ?r1)"
    by (simp add: fetch_def Let_def split_def)
  have "(x, Start_game W) \<in> set (snd (maybeStart ?r1))"
    using assms
    by (auto simp: fetch_def Let_def split_def updateStats_def broadcast_def player_infoW_def
        split: if_splits)
  then show ?thesis
    unfolding r' by (rule maybeStart_persists)
qed

lemma reads_step: "reads (wstep r ev) = reads r"
proof (cases ev)
  case (Connect c auth)
  then show ?thesis
    by (simp add: fetch_def Let_def split_def maybeStart_def reads_persist)
       (simp add: reads_def assignRole_def Let_def split_def)
next
  case (Move_message c m)
  then show ?thesis
    by (simp add: move_message_def Let_def reads_persist split: option.splits)
       (simp add: reads_def)
next
  case (Cleanup c)
  then show ?thesis
    by (simp add: cleanup_def Let_def reads_persist) (simp add: reads_def)
qed

lemma reads_foldl: "reads (foldl wstep r evs) = reads r"
  by (induction evs arbitrary: r) (simp_all add: reads_step)

lemma reads_run: "reads (wrun stored evs) = 1"
  by (simp add: wrun_def reads_foldl) (simp add: reads_def Room_constructor_def)

lemma constructor_rehydrates: "snapshot_of (Room_constructor (Some s)) = s"
  by (simp add: snapshot_of_def Room_constructor_def)

text \<open>
  C7, as stated, fails: a join that takes a seat without starting the game writes
  nothing. The first connection to a new \<^verbatim>\<open>Room\<close> becomes white and its
  identity is recorded in memory, but the storage is still empty and the only storage
  call so far is the constructor's read.
\<close>

theorem join_not_persisted:
  "whiteMetaW (fst (fetch (wrun None []) 1 (Some (10, ''ann''))))
     = \<lparr> m_id = Some 10, m_username = Some ''ann'' \<rparr> \<and>
   storageW (fst (fetch (wrun None []) 1 (Some (10, ''ann'')))) = None \<and>
   storage_log (fst (fetch (wrun None []) 1 (Some (10, ''ann'')))) = [Get]"
  by code_simp

text \<open>
  C7, amended, for the worker's \<^verbatim>\<open>Room\<close>: after every accepted move, after
  every entry that starts the game and after every cleanup of a connection, the stored
  value is the snapshot (position, started flag, seat identities) of the state the
  event leaves; the constructor takes a stored snapshot over as it is; and over any
  list of events the storage is read exactly once, by the constructor.
\<close>

theorem persist_after_events:
  "(mv_from m = Some f \<and> mv_to m = Some t \<and> mv_fen m = Some p \<longrightarrow>
      storageW (fst (move_message r c m)) = Some (snapshot_of (fst (move_message r c m))) \<and>
      s_fen (snapshot_of (fst (move_message r c m))) = Some p) \<and>
   ((x, Start_game W) \<in> set (snd (fetch r c auth)) \<longrightarrow>
      storageW (fst (fetch r c auth)) = Some (snapshot_of (fst (fetch r c auth))) \<and>
      startedW (fst (fetch r c auth))) \<and>
   storageW (fst (cleanup r c)) = Some (snapshot_of (fst (cleanup r c))) \<and>
   snapshot_of (Room_constructor (Some s)) = s \<and>
   reads (wrun stored evs) = 1"
  using move_message_persists [of m f t p r c] fetch_start_persists [of x r c auth]
    cleanup_persists [of r c] constructor_rehydrates [of s] reads_run [of stored evs]
  by simp

theorem persist_after_events_witness:
  "storageW (fst (move_message two_seatedW 1 (mv ''e2'' ''e4'' ''P1''))) =
     Some \<lparr> s_fen = Some ''P1'', s_started = True,
            s_whiteMeta = \<lparr> m_id = Some 10, m_username = Some ''ann'' \<rparr>,
            s_blackMeta = \<lparr> m_id = Some 20, m_username = Some ''bob'' \<rparr> \<rparr> \<and>
   storageW (fst (fetch (wrun None [Connect 1 (Some (10, ''ann''))]) 2 (Some (20, ''bob'')))) =
     Some \<lparr> s_fen = None, s_started = True,
            s_whiteMeta = \<lparr> m_id = Some 10, m_username = Some ''ann'' \<rparr>,
            s_blackMeta = \<lparr> m_id = Some 20, m_username = Some ''bob'' \<rparr> \<rparr> \<and>
   storageW (fst (cleanup two_seatedW 1)) =
     Some \<lparr> s_fen = None, s_started = False,
            s_whiteMeta = \<lparr> m_id = Some 10, m_username = Some ''ann'' \<rparr>,
            s_blackMeta = \<lparr> m_id = Some 20, m_username = Some ''bob'' \<rparr> \<rparr> \<and>
   reads (wrun None [Connect 1 (Some (10, ''ann'')), Connect 2 (Some (20, ''bob''))]) = 1"
proof -
  let ?m = "mv ''e2'' ''e4'' ''P1''"
  let ?w1 = "wrun None [Connect 1 (Some (10, ''ann''))]"
  have msg: "mv_from ?m = Some ''e2'' \<and> mv_to ?m = Some ''e4'' \<and> mv_fen ?m = Some ''P1''"
    by (simp add: mv_def)
  have start: "(1, Start_game W) \<in> set (snd (fetch ?w1 2 (Some (20, ''bob''))))"
    by code_simp
  have snap_move: "snapshot_of (fst (move_message two_seatedW 1 ?m)) =
      \<lparr> s_fen = Some ''P1'', s_started = True,
        s_whiteMeta = \<lparr> m_id = Some 10, m_username = Some ''ann'' \<rparr>,
        s_blackMeta = \<lparr> m_id = Some 20, m_username = Some ''bob'' \<rparr> \<rparr>"
    by code_simp
  have snap_start: "snapshot_of (fst (fetch ?w1 2 (Some (20, ''bob'')))) =
      \<lparr> s_fen = None, s_started = True,
        s_whiteMeta = \<lparr> m_id = Some 10, m_username = Some ''ann'' \<rparr>,
        s_blackMeta = \<lparr> m_id = Some 20, m_username = Some ''bob'' \<rparr> \<rparr>"
    by code_simp
  have snap_cleanup: "snapshot_of (fst (cleanup two_seatedW 1)) =
      \<lparr> s_fen = None, s_started = False,
        s_whiteMeta = \<lparr> m_id = Some 10, m_username = Some ''ann'' \<rparr>,
        s_blackMeta = \<lparr> m_id = Some 20, m_username = Some ''bob'' \<rparr> \<rparr>"
    by code_simp
  note a = persist_after_events [where m = ?m and f = "''e2''" and t = "''e4''" and p = "''P1''"
      and r = two_seatedW and c = 1 and x = 1 and auth = None
      and s = "snapshot_of two_seatedW" and stored = None
      and evs = "[Connect 1 (Some (10, ''ann'')), Connect 2 (Some (20, ''bob''))]"]
  note b = persist_after_events [where m = ?m and f = "''e2''" and t = "''e4''" and p = "''P1''"
      and r = ?w1 and c = 2 and x = 1 and auth = "Some (20, ''bob'')"
      and s = "snapshot_of two_seatedW" and stored = None and evs = "[]"]
  have "storageW (fst (move_message two_seatedW 1 ?m)) =
          Some (snapshot_of (fst (move_message two_seatedW 1 ?m)))"
    and "storageW (fst (cleanup two_seatedW 1)) = Some (snapshot_of (fst (cleanup two_seatedW 1)))"
    and "reads (wrun None [Connect 1 (Some (10, ''ann'')), Connect 2 (Some (20, ''bob''))]) = 1"
    using a msg by simp_all
  moreover have "storageW (fst (fetch ?w1 2 (Some (20, ''bob'')))) =
          Some (snapshot_of (fst (fetch ?w1 2 (Some (20, ''bob'')))))"
    using b start by simp
  ultimately show ?thesis
    by (simp only: snap_move snap_start snap_cleanup)
qed

section \<open>Where the two coordinators part ways\<close>

lemma close_room_started: "started (fst (close_room c r)) = started r"
  by (simp add: close_room_def Let_def)

lemma cleanup_seat_holder:
  assumes "map_of (socketsW r) c = Some rc" and "rc_role rc = W \<or> rc_role rc = B"
  shows "startedW (fst (cleanup r c)) = False"
    and "fenW (fst (cleanup r c)) = fenW r"
    and "whiteW r = Some c \<Longrightarrow> whiteW (fst (cleanup r c)) = None"
    and "blackW r = Some c \<Longrightarrow> blackW (fst (cleanup r c)) = None"
  using assms by (auto simp: cleanup_def Let_def persist_def)

lemma move_handler_not_to_sender: "(c, x) \<notin> set (snd (move_handler eng rs c cur m))"
  by (auto simp: move_handler_def fan_out_def split: option.splits)

lemma move_message_to_sender:
  assumes "mv_from m = Some f" and "mv_to m = Some t" and "mv_fen m = Some p"
      and "map_of (socketsW r) c = Some rc"
  shows "(c, Move_out f t (str_or (mv_promotion m) ''q'') p None) \<in> set (snd (move_message r c m))"
proof -
  have "(c, rc) \<in> set (socketsW r)"
    using assms(4) by (rule map_of_SomeD)
  then show ?thesis
    using assms(1-3) by (force simp: move_message_def Let_def broadcast_def persist_def)
qed

text \<open>
  C3 fails on the server: its \<^verbatim>\<open>close\<close> handler clears the seat and leaves the
  \<^verbatim>\<open>started\<close> flag set. With white (connection 1) and black (connection 2)
  seated and the game started, connection 1 closes: the white seat is empty and
  \<^verbatim>\<open>started\<close> is still true, so when connection 3 joins and takes the white
  seat no \<^verbatim>\<open>start_game\<close> is sent. The worker's \<^verbatim>\<open>cleanup\<close> clears the
  flag in the same run, and the next entry sends \<^verbatim>\<open>start_game\<close> to both seats.
\<close>

theorem close_keeps_started_flag:
  "map_of (srv_run demo_engine [Join 1 (jm 10 ''ann''), Join 2 (jm 20 ''bob''), Close 1]) ''r1'' =
     Some \<lparr> room_id = ''r1'', clients = [2], fen = Some start_fen,
            white = None, black = Some 2, whiteId = Some 10, blackId = Some 20,
            whiteUsername = Some ''ann'', blackUsername = Some ''bob'',
            started = True, spectators = [], game = Some Initial \<rparr> \<and>
   snd (join_handler demo_engine
          (srv_run demo_engine [Join 1 (jm 10 ''ann''), Join 2 (jm 20 ''bob''), Close 1])
          3 (jm 30 ''cy'')) =
     [(2, Stats 2), (3, Stats 2), (3, Role_msg W False), (3, State_msg start_fen),
      (3, Opponent_info 20 ''bob'')] \<and>
   startedW (fst (cleanup two_seatedW 1)) = False \<and>
   snd (fetch (fst (cleanup two_seatedW 1)) 3 (Some (30, ''cy''))) =
     [(2, Stats 2), (3, Stats 2), (3, Role_msg W False), (3, Opponent_info 20 ''bob''),
      (2, Opponent_info 30 ''cy''), (3, Start_game W), (2, Start_game B)]"
  by code_simp

text \<open>
  C4 fails on the server for a connection that joins the same room again: connection 1
  sends \<^verbatim>\<open>join\<close> three times and ends as white, as black and in the spectator
  set.
\<close>

theorem repeated_join_seat_and_spectator:
  "map_of (srv_run demo_engine
       [Join 1 (jm 10 ''ann''), Join 1 (jm 10 ''ann''), Join 1 (jm 10 ''ann'')]) ''r1'' =
     Some \<lparr> room_id = ''r1'', clients = [1], fen = Some start_fen,
            white = Some 1, black = Some 1, whiteId = Some 10, blackId = Some 10,
            whiteUsername = Some ''ann'', blackUsername = Some ''ann'',
            started = True, spectators = [1], game = Some Initial \<rparr> \<and>
   seat_and_spectator (the (map_of (srv_run demo_engine
       [Join 1 (jm 10 ''ann''), Join 1 (jm 10 ''ann''), Join 1 (jm 10 ''ann'')]) ''r1'')) 1"
  by code_simp

text \<open>
  C8 fails in the worker: its \<^verbatim>\<open>move\<close> branch broadcasts without the
  \<^verbatim>\<open>except\<close> argument. With connections 1 and 2 in the room, the move sent
  by connection 1 comes back to connection 1; the server, in the same situation,
  sends it to connection 2 only.
\<close>

theorem worker_move_echoed_to_sender:
  "snd (move_message two_seatedW 1 (mv ''e2'' ''e4'' ''P1'')) =
     [(1, Move_out ''e2'' ''e4'' ''q'' ''P1'' None), (2, Move_out ''e2'' ''e4'' ''q'' ''P1'' None)] \<and>
   snd (move_handler demo_engine two_seated 1 (Some 10) (mv ''e2'' ''e4'' ''P1'')) =
     [(2, Move_out ''e2'' ''e4'' ''q'' e4_fen (Some 10))]"
  by code_simp

section \<open>Seats and spectators on the server\<close>

lemma seats_apart_new_room: "seats_apart (new_room eng rid)"
  by (simp add: seats_apart_def new_room_def)

lemma seats_apart_not_both: "seats_apart r \<Longrightarrow> \<not> seat_and_spectator r c"
  by (auto simp: seats_apart_def seat_and_spectator_def list_all_iff)

lemma seats_apart_assign:
  assumes "seats_apart r" and "c \<notin> set (clients r)"
  shows "seats_apart (fst (assign_seat (r\<lparr> clients := set_add c (clients r) \<rparr>) c m))"
  using assms
  by (auto simp: seats_apart_def assign_seat_def set_add_def list_all_iff split: option.splits)

lemma seats_apart_started: "seats_apart (r\<lparr> started := b \<rparr>) = seats_apart r"
  by (simp add: seats_apart_def split: option.splits)

lemma seats_apart_join_room:
  assumes "seats_apart r" and "c \<notin> set (clients r)"
  shows "seats_apart (fst (join_room r c m))"
proof -
  let ?r2 = "fst (assign_seat (r\<lparr> clients := set_add c (clients r) \<rparr>) c m)"
  have "fst (join_room r c m) = (if both_seated ?r2 then fst (start_room ?r2) else ?r2)"
    by (simp add: join_room_def Let_def split_def)
  moreover have "seats_apart (fst (start_room ?r2)) = seats_apart ?r2"
    by (simp add: start_room_def seats_apart_started)
  ultimately show ?thesis
    using seats_apart_assign [OF assms] by simp
qed

lemma seats_apart_close_room: "seats_apart r \<Longrightarrow> seats_apart (fst (close_room c r))"
  by (auto simp: seats_apart_def close_room_def set_delete_def Let_def list_all_iff
      split: option.splits)

lemma seats_apart_position: "seats_apart (r\<lparr> game := g, fen := f \<rparr>) = seats_apart r"
  "seats_apart (r\<lparr> game := g \<rparr>) = seats_apart r"
  by (simp_all add: seats_apart_def split: option.splits)

lemma all_seats_apart_update:
  "all_seats_apart rs \<Longrightarrow> seats_apart r \<Longrightarrow> all_seats_apart (AList.update k r rs)"
  by (induction rs) (auto simp: all_seats_apart_def)

lemma all_seats_apart_lookup:
  "all_seats_apart rs \<Longrightarrow> map_of rs k = Some r \<Longrightarrow> seats_apart r"
  by (induction rs) (auto simp: all_seats_apart_def split: if_splits)

lemma all_seats_apart_step:
  assumes "all_seats_apart rs" and "joins_once eng rs (ev # evs)"
  shows "all_seats_apart (srv_step eng rs ev)"
proof (cases ev)
  case (Join c m)
  let ?r0 = "find_or_new_room eng rs (j_roomId m)"
  have "seats_apart ?r0"
    using assms(1)
    by (auto simp: find_or_new_room_def seats_apart_new_room split: option.splits
        dest: all_seats_apart_lookup)
  moreover have "c \<notin> set (clients ?r0)"
    using assms(2) Join by simp
  ultimately have "seats_apart (fst (join_room ?r0 c m))"
    by (rule seats_apart_join_room)
  then show ?thesis
    using assms(1) Join
    by (simp add: join_handler_def split_def Let_def all_seats_apart_update)
next
  case (Move c cur m)
  show ?thesis
    using assms(1) Move
    by (auto simp: move_handler_def seats_apart_position split: option.splits
        intro!: all_seats_apart_update dest: all_seats_apart_lookup)
next
  case (Close c)
  have "all_seats_apart (map (\<lambda>(k, r). (k, fst (close_room c r))) rs)"
    using assms(1)
    by (induction rs) (auto simp: all_seats_apart_def seats_apart_close_room)
  then show ?thesis
    using Close by (simp add: close_handler_def)
qed

lemma joins_once_tail: "joins_once eng rs (ev # evs) \<Longrightarrow> joins_once eng (srv_step eng rs ev) evs"
  by (cases ev) simp_all

lemma all_seats_apart_foldl:
  "all_seats_apart rs \<Longrightarrow> joins_once eng rs evs \<Longrightarrow>
     all_seats_apart (foldl (srv_step eng) rs evs)"
proof (induction evs arbitrary: rs)
  case Nil
  then show ?case by simp
next
  case (Cons ev evs)
  have "all_seats_apart (srv_step eng rs ev)"
    using Cons.prems by (rule all_seats_apart_step)
  moreover have "joins_once eng (srv_step eng rs ev) evs"
    using Cons.prems(2) by (rule joins_once_tail)
  ultimately show ?case
    using Cons.IH by simp
qed

lemma seats_apart_when_joining_once:
  assumes "joins_once eng [] evs" and "map_of (srv_run eng evs) k = Some r"
  shows "\<not> seat_and_spectator r c" and "white r = None \<or> white r \<noteq> black r"
proof -
  have "all_seats_apart ([] :: 'a rooms)"
    by (simp add: all_seats_apart_def)
  then have "all_seats_apart (srv_run eng evs)"
    unfolding srv_run_def using assms(1) by (rule all_seats_apart_foldl)
  then have ok: "seats_apart r"
    using assms(2) by (rule all_seats_apart_lookup)
  then show "\<not> seat_and_spectator r c"
    by (rule seats_apart_not_both)
  show "white r = None \<or> white r \<noteq> black r"
    using ok by (auto simp: seats_apart_def split: option.splits)
qed

text \<open>On the server a move the engine accepts reaches every client of the room but
  the sender.\<close>

lemma move_handler_reaches_others:
  assumes "map_of rs (mv_roomId m) = Some r"
      and "game r = Some g"
      and "truthy_str (mv_from m)" and "truthy_str (mv_to m)"
      and "chess_move eng g (the (mv_from m)) (the (mv_to m)) (str_or (mv_promotion m) ''q'') = Some g'"
  shows "fst ` set (snd (move_handler eng rs c cur m)) = set (clients r) - {c}"
  unfolding move_handler_accepted [OF assms]
  by (auto simp: fan_out_def image_iff)

end
